theory Spec2Isabelle
  imports Complex_Main
begin

section \<open>JavaScript numbers\<close>

text \<open>
  A JavaScript number is modelled as a real extended with the IEEE special values
  \<open>Infinity\<close>, \<open>-Infinity\<close> and \<open>NaN\<close>; \<open>Undefined\<close> is the value of an
  out-of-range array read. Rounding of doubles, overflow of finite values and the sign
  of zero are not modelled: a finite result is the exact real result, and a division of a
  non-zero finite number by zero takes the sign of the dividend.
\<close>

datatype jsval = Num real | PInf | NInf | NaN | Undefined

datatype error = TypeError

fun jadd :: "jsval \<Rightarrow> jsval \<Rightarrow> jsval" where
  "jadd (Num a) (Num b) = Num (a + b)"
| "jadd (Num a) PInf = PInf"
| "jadd (Num a) NInf = NInf"
| "jadd PInf (Num b) = PInf"
| "jadd PInf PInf = PInf"
| "jadd NInf (Num b) = NInf"
| "jadd NInf NInf = NInf"
| "jadd _ _ = NaN"

fun jneg :: "jsval \<Rightarrow> jsval" where
  "jneg (Num a) = Num (- a)"
| "jneg PInf = NInf"
| "jneg NInf = PInf"
| "jneg _ = NaN"

definition jsub :: "jsval \<Rightarrow> jsval \<Rightarrow> jsval" where
  "jsub a b = jadd a (jneg b)"

definition inf_signed :: "real \<Rightarrow> jsval" where
  "inf_signed s = (if 0 < s then PInf else if s < 0 then NInf else NaN)"

fun jmul :: "jsval \<Rightarrow> jsval \<Rightarrow> jsval" where
  "jmul (Num a) (Num b) = Num (a * b)"
| "jmul (Num a) PInf = inf_signed a"
| "jmul (Num a) NInf = inf_signed (- a)"
| "jmul PInf (Num b) = inf_signed b"
| "jmul NInf (Num b) = inf_signed (- b)"
| "jmul PInf PInf = PInf"
| "jmul PInf NInf = NInf"
| "jmul NInf PInf = NInf"
| "jmul NInf NInf = PInf"
| "jmul _ _ = NaN"

fun jdiv :: "jsval \<Rightarrow> jsval \<Rightarrow> jsval" where
  "jdiv (Num a) (Num b) = (if b = 0 then inf_signed a else Num (a / b))"
| "jdiv (Num a) PInf = Num 0"
| "jdiv (Num a) NInf = Num 0"
| "jdiv PInf (Num b) = (if b < 0 then NInf else PInf)"
| "jdiv NInf (Num b) = (if b < 0 then PInf else NInf)"
| "jdiv _ _ = NaN"

fun jabs :: "jsval \<Rightarrow> jsval" where
  "jabs (Num a) = Num \<bar>a\<bar>"
| "jabs PInf = PInf"
| "jabs NInf = PInf"
| "jabs _ = NaN"

text \<open>The relational operators \<open><\<close> and \<open>></\<close>: false as soon as an operand is \<open>NaN\<close>
  (or \<open>undefined\<close>, which converts to \<open>NaN\<close>).\<close>

fun jlt :: "jsval \<Rightarrow> jsval \<Rightarrow> bool" where
  "jlt (Num a) (Num b) = (a < b)"
| "jlt (Num a) PInf = True"
| "jlt NInf (Num b) = True"
| "jlt NInf PInf = True"
| "jlt _ _ = False"

definition jgt :: "jsval \<Rightarrow> jsval \<Rightarrow> bool" where
  "jgt a b = jlt b a"

text \<open>Truthiness of a value used as a condition: \<open>0\<close>, \<open>NaN\<close> and \<open>undefined\<close> are falsy.\<close>

fun truthy :: "jsval \<Rightarrow> bool" where
  "truthy (Num a) = (a \<noteq> 0)"
| "truthy PInf = True"
| "truthy NInf = True"
| "truthy _ = False"

fun isFinite :: "jsval \<Rightarrow> bool" where
  "isFinite (Num a) = True"
| "isFinite _ = False"

text \<open>\<open>xs[i]\<close>: \<open>undefined\<close> outside \<open>0 .. length - 1\<close>.\<close>

definition jsnth :: "jsval list \<Rightarrow> int \<Rightarrow> jsval" where
  "jsnth xs i = (if 0 \<le> i \<and> i < int (length xs) then xs ! nat i else Undefined)"

text \<open>\<open>xs[xs.length - 1]\<close>.\<close>

definition lastOf :: "jsval list \<Rightarrow> jsval" where
  "lastOf xs = jsnth xs (int (length xs) - 1)"

text \<open>\<open>xs.reduce((a, b) => a + b, 0)\<close>.\<close>

definition jsum :: "jsval list \<Rightarrow> jsval" where
  "jsum xs = foldl jadd (Num 0) xs"

text \<open>\<open>Math.max(...xs)\<close> and \<open>Math.min(...xs)\<close> on finite numbers; the empty spread gives
  \<open>-Infinity\<close> and \<open>Infinity\<close>.\<close>

definition mathMax :: "real list \<Rightarrow> jsval" where
  "mathMax xs = (case xs of [] \<Rightarrow> NInf | y # ys \<Rightarrow> Num (foldl max y ys))"

definition mathMin :: "real list \<Rightarrow> jsval" where
  "mathMin xs = (case xs of [] \<Rightarrow> PInf | y # ys \<Rightarrow> Num (foldl min y ys))"

text \<open>The relational operators \<open><=\<close> and \<open>>=\<close>.\<close>

fun jle :: "jsval \<Rightarrow> jsval \<Rightarrow> bool" where
  "jle (Num a) (Num b) = (a \<le> b)"
| "jle (Num a) PInf = True"
| "jle NInf (Num b) = True"
| "jle NInf PInf = True"
| "jle PInf PInf = True"
| "jle NInf NInf = True"
| "jle _ _ = False"

definition jge :: "jsval \<Rightarrow> jsval \<Rightarrow> bool" where
  "jge a b = jle b a"

subsection \<open>Rounding to double precision\<close>

text \<open>
  \<open>toDouble x\<close> is the IEEE binary64 number nearest to the real \<open>x\<close>, ties to the even
  significand: \<open>binade\<close> scales \<open>|x|\<close> by powers of two to \<open>m * 2^e\<close> with
  \<open>2^52 \<le> m < 2^53\<close>, or with the least exponent \<open>e = -1074\<close> of the subnormal numbers,
  the significand \<open>m\<close> is rounded to an integer, and a result of \<open>2^1024\<close> or more is an
  infinity. The first argument of \<open>binade\<close> bounds the number of scaling steps; 2200 covers
  every binade of the format.
\<close>

definition roundHalfEven :: "real \<Rightarrow> int" where
  "roundHalfEven x =
     (let f = \<lfloor>x\<rfloor>; d = x - real_of_int f
      in if d < 1 / 2 then f else if 1 / 2 < d then f + 1 else if even f then f else f + 1)"

fun binade :: "nat \<Rightarrow> real \<Rightarrow> int \<Rightarrow> real \<times> int" where
  "binade 0 m e = (m, e)"
| "binade (Suc n) m e =
     (if 2 ^ 53 \<le> m then binade n (m / 2) (e + 1)
      else if m < 2 ^ 52 \<and> - 1074 < e then binade n (m * 2) (e - 1)
      else (m, e))"

definition pow2 :: "int \<Rightarrow> real" where
  "pow2 e = (if 0 \<le> e then 2 ^ nat e else 1 / 2 ^ nat (- e))"

definition toDouble :: "real \<Rightarrow> jsval" where
  "toDouble x =
     (if x = 0 then Num 0
      else (let (m, e) = binade 2200 \<bar>x\<bar> 0;
                r = real_of_int (roundHalfEven m) * pow2 e
            in if 2 ^ 1024 \<le> r then (if 0 < x then PInf else NInf)
               else Num (if 0 < x then r else - r)))"

text \<open>
  The arithmetic of a function whose results are compared digit for digit is written
  over a rounding \<open>rnd\<close> applied to every literal and to the result of every operation:
  \<open>roundDouble\<close> gives the arithmetic of the code, \<open>exactArith\<close> the arithmetic of the
  reals.
\<close>

definition roundDouble :: "jsval \<Rightarrow> jsval" where
  "roundDouble v = (case v of Num x \<Rightarrow> toDouble x | _ \<Rightarrow> v)"

definition exactArith :: "jsval \<Rightarrow> jsval" where
  "exactArith v = v"

definition lit :: "(jsval \<Rightarrow> jsval) \<Rightarrow> real \<Rightarrow> jsval" where
  "lit rnd x = rnd (Num x)"

definition radd :: "(jsval \<Rightarrow> jsval) \<Rightarrow> jsval \<Rightarrow> jsval \<Rightarrow> jsval" where
  "radd rnd a b = rnd (jadd a b)"

definition rsub :: "(jsval \<Rightarrow> jsval) \<Rightarrow> jsval \<Rightarrow> jsval \<Rightarrow> jsval" where
  "rsub rnd a b = rnd (jsub a b)"

definition rmul :: "(jsval \<Rightarrow> jsval) \<Rightarrow> jsval \<Rightarrow> jsval \<Rightarrow> jsval" where
  "rmul rnd a b = rnd (jmul a b)"

definition rdiv :: "(jsval \<Rightarrow> jsval) \<Rightarrow> jsval \<Rightarrow> jsval \<Rightarrow> jsval" where
  "rdiv rnd a b = rnd (jdiv a b)"

section \<open>Indicator library (technicalIndicators.js)\<close>

record ohlc =
  timestamp :: int
  openp :: real
  high :: real
  low :: real
  close :: real
  volume :: real

text \<open>
  \<open>calculateSMA\<close>: the loop index \<open>i\<close> runs from \<open>period - 1\<close> to \<open>length - 1\<close>; with
  \<open>j = i - period + 1\<close> the window \<open>prices.slice(i - period + 1, i + 1)\<close> is
  \<open>take period (drop j prices)\<close> and \<open>j\<close> runs from \<open>0\<close> to \<open>length - period\<close>.
\<close>

definition calculateSMA :: "jsval list \<Rightarrow> nat \<Rightarrow> jsval list option" where
  "calculateSMA prices period =
     (if length prices < period then None
      else Some (map (\<lambda>j. jdiv (jsum (take period (drop j prices))) (Num (real period)))
                     [0 ..< length prices + 1 - period]))"

text \<open>\<open>calculateEMA\<close>: seeded with \<open>prices[0]\<close>, one value per further input.\<close>

fun emaLoop :: "real \<Rightarrow> jsval \<Rightarrow> jsval list \<Rightarrow> jsval list" where
  "emaLoop k prev [] = []"
| "emaLoop k prev (p # ps) =
     (let e = jadd (jmul p (Num k)) (jmul prev (Num (1 - k))) in e # emaLoop k e ps)"

definition calculateEMA :: "jsval list \<Rightarrow> nat \<Rightarrow> jsval list option" where
  "calculateEMA prices period =
     (if length prices < period then None
      else (let k = 2 / (real period + 1);
                seed = jsnth prices 0
            in Some (seed # emaLoop k seed (tl prices))))"

text \<open>
  \<open>calculateRSI\<close>: \<open>changes[i] = prices[i + 1] - prices[i]\<close>; the first \<open>period\<close> changes seed
  the averages, and each later change first emits the RSI of the averages held so far and
  then updates them.
\<close>

definition priceChanges :: "jsval list \<Rightarrow> jsval list" where
  "priceChanges prices = map (\<lambda>(a, b). jsub b a) (zip prices (tl prices))"

definition rsiSeed :: "jsval list \<Rightarrow> jsval \<times> jsval" where
  "rsiSeed cs =
     foldl (\<lambda>(avgGain, avgLoss) c.
              if jgt c (Num 0) then (jadd avgGain c, avgLoss)
              else (avgGain, jadd avgLoss (jabs c)))
           (Num 0, Num 0) cs"

fun rsiLoop :: "nat \<Rightarrow> jsval \<Rightarrow> jsval \<Rightarrow> jsval list \<Rightarrow> jsval list" where
  "rsiLoop period avgGain avgLoss [] = []"
| "rsiLoop period avgGain avgLoss (change # cs) =
     (let rs = (if avgLoss = Num 0 then Num 100 else jdiv avgGain avgLoss);
          v = jsub (Num 100) (jdiv (Num 100) (jadd (Num 1) rs));
          gain = (if jgt change (Num 0) then change else Num 0);
          loss = (if jlt change (Num 0) then jabs change else Num 0);
          avgGain' = jdiv (jadd (jmul avgGain (Num (real period - 1))) gain) (Num (real period));
          avgLoss' = jdiv (jadd (jmul avgLoss (Num (real period - 1))) loss) (Num (real period))
      in v # rsiLoop period avgGain' avgLoss' cs)"

definition calculateRSI :: "jsval list \<Rightarrow> nat \<Rightarrow> jsval list option" where
  "calculateRSI prices period =
     (if length prices < period + 1 then None
      else (let changes = priceChanges prices;
                (g, l) = rsiSeed (take period changes)
            in Some (rsiLoop period (jdiv g (Num (real period))) (jdiv l (Num (real period)))
                       (drop period changes))))"

text \<open>
  \<open>calculateATR\<close>: the true ranges of the bars after the first; the mean of the first
  \<open>period\<close> of them is emitted, and each later true range updates the average and emits it.
\<close>

definition trueRanges :: "ohlc list \<Rightarrow> real list" where
  "trueRanges ohlcData =
     map (\<lambda>(prev, d). max (max (high d - low d) \<bar>high d - close prev\<bar>) \<bar>low d - close prev\<bar>)
         (zip ohlcData (tl ohlcData))"

fun atrLoop :: "nat \<Rightarrow> jsval \<Rightarrow> real list \<Rightarrow> jsval list" where
  "atrLoop period currentATR [] = []"
| "atrLoop period currentATR (t # ts) =
     (let currentATR' = jdiv (jadd (jmul currentATR (Num (real period - 1))) (Num t))
                             (Num (real period))
      in currentATR' # atrLoop period currentATR' ts)"

definition calculateATR :: "ohlc list \<Rightarrow> nat \<Rightarrow> jsval list option" where
  "calculateATR ohlcData period =
     (if length ohlcData < period + 1 then None
      else (let trs = trueRanges ohlcData;
                seed = jdiv (jsum (map Num (take period trs))) (Num (real period))
            in Some (seed # atrLoop period seed (drop period trs))))"

text \<open>\<open>calculateMACD\<close>; the histogram reads the MACD line at
  \<open>i + (macdLine.length - signalLine.length)\<close>. The fields \<open>macd\<close> and \<open>signal\<close> of the
  result are named \<open>macd_line\<close> and \<open>signal_line\<close>.\<close>

record macdResult =
  macd_line :: "jsval list"
  signal_line :: "jsval list option"
  histogram :: "jsval list"

definition macdOffset :: "jsval list \<Rightarrow> jsval list \<Rightarrow> int" where
  "macdOffset macdLine signalLine = int (length macdLine) - int (length signalLine)"

definition calculateMACD :: "jsval list \<Rightarrow> nat \<Rightarrow> nat \<Rightarrow> nat \<Rightarrow> macdResult option" where
  "calculateMACD prices fastPeriod slowPeriod signalPeriod =
     (case (calculateEMA prices fastPeriod, calculateEMA prices slowPeriod) of
        (Some fastEMA, Some slowEMA) \<Rightarrow>
          (let macdLine = map (\<lambda>i. jsub (jsnth fastEMA (int i)) (jsnth slowEMA (int i)))
                              [0 ..< length fastEMA];
               signalLine = calculateEMA macdLine signalPeriod;
               hist = (case signalLine of
                         None \<Rightarrow> []
                       | Some sl \<Rightarrow>
                           map (\<lambda>i. jsub (jsnth macdLine (int i + macdOffset macdLine sl))
                                          (jsnth sl (int i)))
                               [0 ..< length sl])
           in Some \<lparr>macd_line = macdLine, signal_line = signalLine, histogram = hist\<rparr>)
      | _ \<Rightarrow> None)"

text \<open>
  \<open>calculateStochastic\<close>. The fields \<open>k\<close> and \<open>d\<close> of the result are named
  \<open>stoch_k\<close> and \<open>stoch_d\<close>. With \<open>period = 0\<close> the first iteration reads
  \<open>ohlcData[-1].close\<close>, a property of \<open>undefined\<close>, which throws.
\<close>

record stochastic =
  stoch_k :: "jsval list option"
  stoch_d :: "jsval list option"

definition percentKAt :: "ohlc list \<Rightarrow> nat \<Rightarrow> nat \<Rightarrow> jsval" where
  "percentKAt ohlcData period j =
     (let slice = take period (drop j ohlcData);
          hi = mathMax (map high slice);
          lo = mathMin (map low slice);
          cl = Num (close (ohlcData ! (j + period - 1)))
      in jmul (jdiv (jsub cl lo) (jsub hi lo)) (Num 100))"

definition calculateStochastic ::
  "ohlc list \<Rightarrow> nat \<Rightarrow> nat \<Rightarrow> nat \<Rightarrow> error + stochastic option" where
  "calculateStochastic ohlcData period smoothK smoothD =
     (if length ohlcData < period then Inr None
      else if period = 0 then Inl TypeError
      else (let percentK = map (percentKAt ohlcData period)
                               [0 ..< length ohlcData + 1 - period];
                smoothedK = calculateSMA percentK smoothK;
                percentD = (case smoothedK of None \<Rightarrow> None
                            | Some sk \<Rightarrow> calculateSMA sk smoothD)
            in Inr (Some \<lparr>stoch_k = smoothedK, stoch_d = percentD\<rparr>)))"

text \<open>\<open>calculateCCI\<close>, with the same re-indexing of the window as \<open>calculateSMA\<close>.\<close>

definition cciAt :: "jsval list \<Rightarrow> nat \<Rightarrow> nat \<Rightarrow> jsval" where
  "cciAt typicalPrices period j =
     (let slice = take period (drop j typicalPrices);
          sma = jdiv (jsum slice) (Num (real period));
          meanDeviation =
            jdiv (foldl (\<lambda>s tp. jadd s (jabs (jsub tp sma))) (Num 0) slice) (Num (real period))
      in jdiv (jsub (jsnth typicalPrices (int j + int period - 1)) sma)
              (jmul (Num 0.015) meanDeviation))"

definition calculateCCI :: "ohlc list \<Rightarrow> nat \<Rightarrow> jsval list option" where
  "calculateCCI ohlcData period =
     (if length ohlcData < period then None
      else (let typicalPrices = map (\<lambda>d. jdiv (Num (high d + low d + close d)) (Num 3)) ohlcData
            in Some (map (cciAt typicalPrices period)
                         [0 ..< length typicalPrices + 1 - period])))"

text \<open>
  \<open>calculateSupportResistance\<close>. \<open>ohlcData.slice(-lookback)\<close>, here \<open>sliceLast\<close>, is the
  last \<open>lookback\<close> bars, and the whole array when \<open>lookback\<close> is \<open>0\<close>. A cluster is closed when the next
  sorted level is not within 2\% of the previous one; the test divides by the previous
  level, so it fails when that level is \<open>0\<close>.
\<close>

record srLevels =
  resistance :: "real list"
  support :: "real list"

definition localMaxima :: "real list \<Rightarrow> real list" where
  "localMaxima highs =
     map (\<lambda>i. highs ! i)
         (filter (\<lambda>i. highs ! i > highs ! (i - 1) \<and> highs ! i > highs ! (i - 2) \<and>
                       highs ! i > highs ! (i + 1) \<and> highs ! i > highs ! (i + 2))
                 [2 ..< length highs - 2])"

definition localMinima :: "real list \<Rightarrow> real list" where
  "localMinima lows =
     map (\<lambda>i. lows ! i)
         (filter (\<lambda>i. lows ! i < lows ! (i - 1) \<and> lows ! i < lows ! (i - 2) \<and>
                       lows ! i < lows ! (i + 1) \<and> lows ! i < lows ! (i + 2))
                 [2 ..< length lows - 2])"

definition within2pct :: "real \<Rightarrow> real \<Rightarrow> bool" where
  "within2pct prev cur = jlt (jdiv (Num (cur - prev)) (Num prev)) (Num 0.02)"

definition average :: "real list \<Rightarrow> real" where
  "average xs = sum_list xs / real (length xs)"

fun clusterLoop :: "real list \<Rightarrow> real \<Rightarrow> real list \<Rightarrow> real list" where
  "clusterLoop currentCluster prev [] = [average currentCluster]"
| "clusterLoop currentCluster prev (x # xs) =
     (if within2pct prev x then clusterLoop (currentCluster @ [x]) x xs
      else average currentCluster # clusterLoop [x] x xs)"

definition clusterLevels :: "real list \<Rightarrow> real list" where
  "clusterLevels levels =
     (case sort levels of [] \<Rightarrow> [] | s # ss \<Rightarrow> clusterLoop [s] s ss)"

definition sliceLast :: "nat \<Rightarrow> 'a list \<Rightarrow> 'a list" where
  "sliceLast n xs = (if n = 0 then xs else drop (length xs - n) xs)"

definition resistanceLevels :: "ohlc list \<Rightarrow> real list" where
  "resistanceLevels recentData = localMaxima (map high recentData)"

definition supportLevels :: "ohlc list \<Rightarrow> real list" where
  "supportLevels recentData = localMinima (map low recentData)"

definition calculateSupportResistance :: "ohlc list \<Rightarrow> nat \<Rightarrow> srLevels option" where
  "calculateSupportResistance ohlcData lookback =
     (if length ohlcData < lookback then None
      else (let recentData = sliceLast lookback ohlcData;
                rc = clusterLevels (resistanceLevels recentData);
                sc = clusterLevels (supportLevels recentData)
            in Some \<lparr>resistance = drop (length rc - 3) rc, support = take 3 sc\<rparr>))"

section \<open>Signal scoring and probability model (engine.js)\<close>

text \<open>
  A signal is the text pushed on the \<open>signals\<close> array; the numbers it interpolates with
  \<open>toFixed\<close> are kept beside the text, each \<open>{}\<close> standing for one of them.
  \<open>x.toFixed(n)\<close> on \<open>undefined\<close> throws a TypeError.
\<close>

datatype signalText = Signal string "jsval list"

record signalScore =
  score :: real
  signals :: "signalText list"
  strength :: real

record volatilityScore = signalScore +
  volatilityLevel :: string

record bollinger =
  upper :: "jsval list"
  middle :: "jsval list"
  lower :: "jsval list"
  bandwidth :: "jsval list"

text \<open>The result of \<open>calculateADX\<close>; its field \<open>adx\<close> is named \<open>adx_line\<close>.\<close>

record adxResult =
  adx_line :: "jsval list option"
  plusDI :: "jsval list"
  minusDI :: "jsval list"

text \<open>The indicator snapshot, with the fields the five analyzers read.\<close>

record indicators =
  sma20 :: "jsval list option"
  sma50 :: "jsval list option"
  sma200 :: "jsval list option"
  rsi :: "jsval list option"
  macd :: "macdResult option"
  stochastic :: "stochastic option"
  cci :: "jsval list option"
  bollingerBands :: "bollinger option"
  volatility :: "jsval list option"
  volumeMA :: "jsval list option"
  obv :: "jsval list option"
  supportResistance :: "srLevels option"
  adx :: "adxResult option"

type_synonym acc = "real \<times> signalText list"

definition bindE :: "error + 'a \<Rightarrow> ('a \<Rightarrow> error + 'b) \<Rightarrow> error + 'b" where
  "bindE r f = (case r of Inl e \<Rightarrow> Inl e | Inr x \<Rightarrow> f x)"

definition toFixed :: "jsval \<Rightarrow> error + jsval" where
  "toFixed v = (case v of Undefined \<Rightarrow> Inl TypeError | _ \<Rightarrow> Inr v)"

definition addSignal :: "real \<Rightarrow> signalText \<Rightarrow> acc \<Rightarrow> acc" where
  "addSignal delta s a = (fst a + delta, snd a @ [s])"

definition pushSignal :: "signalText \<Rightarrow> acc \<Rightarrow> acc" where
  "pushSignal s a = (fst a, snd a @ [s])"

text \<open>\<open>score += delta; signals.push(`text ${v.toFixed(n)}`)\<close>.\<close>

definition addFixed :: "real \<Rightarrow> string \<Rightarrow> jsval \<Rightarrow> acc \<Rightarrow> error + acc" where
  "addFixed delta txt v a = bindE (toFixed v) (\<lambda>t. Inr (addSignal delta (Signal txt [t]) a))"

definition pushFixed :: "string \<Rightarrow> jsval \<Rightarrow> acc \<Rightarrow> error + acc" where
  "pushFixed txt v a = bindE (toFixed v) (\<lambda>t. Inr (pushSignal (Signal txt [t]) a))"

text \<open>\<open>xs?.[xs.length - 1]\<close> on a possibly null series.\<close>

definition lastOfOpt :: "jsval list option \<Rightarrow> jsval" where
  "lastOfOpt xs = (case xs of None \<Rightarrow> Undefined | Some ys \<Rightarrow> lastOf ys)"

definition clampScore :: "real \<Rightarrow> real" where
  "clampScore s = max (- 1) (min 1 s)"

definition finish :: "acc \<Rightarrow> signalScore" where
  "finish a = \<lparr>score = clampScore (fst a), signals = snd a, strength = \<bar>clampScore (fst a)\<bar>\<rparr>"

subsection \<open>analyzeTrend\<close>

definition trendMA :: "jsval \<Rightarrow> jsval \<Rightarrow> jsval \<Rightarrow> real \<Rightarrow> acc \<Rightarrow> acc" where
  "trendMA s20 s50 s200 currentPrice a =
     (if truthy s20 \<and> truthy s50 \<and> truthy s200 then
        (let a1 = (if jgt (Num currentPrice) s20
                   then addSignal 0.2 (Signal ''Price above 20-day MA (bullish)'' []) a
                   else addSignal (- 0.2) (Signal ''Price below 20-day MA (bearish)'' []) a);
             a2 = (if jgt (Num currentPrice) s50
                   then addSignal 0.15 (Signal ''Price above 50-day MA (bullish)'' []) a1
                   else addSignal (- 0.15) (Signal ''Price below 50-day MA (bearish)'' []) a1);
             a3 = (if jgt s50 s200
                   then addSignal 0.25 (Signal ''Golden cross present (bullish)'' []) a2
                   else if jlt s50 s200
                   then addSignal (- 0.25) (Signal ''Death cross present (bearish)'' []) a2
                   else a2)
         in (if jgt s20 s50 \<and> jgt s50 s200
             then addSignal 0.2 (Signal ''MAs in bullish alignment'' []) a3
             else if jlt s20 s50 \<and> jlt s50 s200
             then addSignal (- 0.2) (Signal ''MAs in bearish alignment'' []) a3
             else a3))
      else a)"

definition trendADX :: "adxResult option \<Rightarrow> acc \<Rightarrow> error + acc" where
  "trendADX ao a =
     (case ao of
        None \<Rightarrow> Inr a
      | Some r \<Rightarrow>
          (case adx_line r of
             None \<Rightarrow> Inr a
           | Some xs \<Rightarrow>
               (let adxv = lastOf xs; pdi = lastOf (plusDI r); mdi = lastOf (minusDI r)
                in if jgt adxv (Num 25) then
                     (if jgt pdi mdi
                      then addFixed 0.2 ''Strong uptrend detected (ADX: {})'' adxv a
                      else addFixed (- 0.2) ''Strong downtrend detected (ADX: {})'' adxv a)
                   else pushFixed ''Weak trend (ADX: {})'' adxv a)))"

definition analyzeTrend :: "indicators \<Rightarrow> real \<Rightarrow> error + signalScore" where
  "analyzeTrend ind currentPrice =
     bindE (trendADX (adx ind)
              (trendMA (lastOfOpt (sma20 ind)) (lastOfOpt (sma50 ind)) (lastOfOpt (sma200 ind))
                 currentPrice (0, [])))
           (\<lambda>a. Inr (finish a))"

subsection \<open>analyzeMomentum\<close>

definition momentumRSI :: "jsval list option \<Rightarrow> acc \<Rightarrow> error + acc" where
  "momentumRSI ro a =
     (case ro of
        None \<Rightarrow> Inr a
      | Some xs \<Rightarrow>
          (let r = lastOf xs
           in if jlt r (Num 30) then addFixed 0.3 ''RSI oversold ({}) - potential bounce'' r a
              else if jgt r (Num 70)
              then addFixed (- 0.3) ''RSI overbought ({}) - potential pullback'' r a
              else if jgt r (Num 50) \<and> jlt r (Num 70) then addFixed 0.1 ''RSI bullish ({})'' r a
              else if jlt r (Num 50) \<and> jgt r (Num 30)
              then addFixed (- 0.1) ''RSI bearish ({})'' r a
              else Inr a))"

definition momentumMACD :: "macdResult option \<Rightarrow> acc \<Rightarrow> acc" where
  "momentumMACD mo a =
     (case mo of
        None \<Rightarrow> a
      | Some m \<Rightarrow>
          (let h = histogram m;
               current = lastOf h;
               previous = jsnth h (int (length h) - 2)
           in if jgt current (Num 0) then
                (let a1 = addSignal 0.2 (Signal ''MACD bullish (above signal)'' []) a
                 in if jgt current previous
                    then addSignal 0.1 (Signal ''MACD momentum increasing'' []) a1 else a1)
              else
                (let a1 = addSignal (- 0.2) (Signal ''MACD bearish (below signal)'' []) a
                 in if jlt current previous
                    then addSignal (- 0.1) (Signal ''MACD momentum decreasing'' []) a1 else a1)))"

definition momentumStochastic :: "stochastic option \<Rightarrow> acc \<Rightarrow> error + acc" where
  "momentumStochastic so a =
     (case so of
        None \<Rightarrow> Inr a
      | Some st \<Rightarrow>
          (case stoch_k st of
             None \<Rightarrow> Inr a
           | Some ks \<Rightarrow>
               (let kv = lastOf ks
                in if jlt kv (Num 20) then addFixed 0.2 ''Stochastic oversold ({})'' kv a
                   else if jgt kv (Num 80)
                   then addFixed (- 0.2) ''Stochastic overbought ({})'' kv a
                   else Inr a)))"

definition momentumCCI :: "jsval list option \<Rightarrow> acc \<Rightarrow> acc" where
  "momentumCCI co a =
     (case co of
        None \<Rightarrow> a
      | Some xs \<Rightarrow>
          (let c = lastOf xs
           in if jlt c (Num (- 100)) then addSignal 0.15 (Signal ''CCI oversold'' []) a
              else if jgt c (Num 100) then addSignal (- 0.15) (Signal ''CCI overbought'' []) a
              else a))"

definition analyzeMomentum :: "indicators \<Rightarrow> error + signalScore" where
  "analyzeMomentum ind =
     bindE (momentumRSI (rsi ind) (0, []))
       (\<lambda>a1. bindE (momentumStochastic (stochastic ind) (momentumMACD (macd ind) a1))
          (\<lambda>a3. Inr (finish (momentumCCI (cci ind) a3))))"

subsection \<open>analyzeVolatility\<close>

definition volatilityRegime :: "jsval list option \<Rightarrow> string \<times> signalText list
    \<Rightarrow> error + string \<times> signalText list" where
  "volatilityRegime vo st =
     (case vo of
        None \<Rightarrow> Inr st
      | Some xs \<Rightarrow>
          (let vol = lastOf xs
           in if jgt vol (Num 100)
              then bindE (toFixed vol)
                     (\<lambda>t. Inr (''very high'', snd st @ [Signal ''Extreme volatility ({}%)'' [t]]))
              else if jgt vol (Num 70)
              then bindE (toFixed vol)
                     (\<lambda>t. Inr (''high'', snd st @ [Signal ''High volatility ({}%)'' [t]]))
              else if jgt vol (Num 40)
              then bindE (toFixed vol)
                     (\<lambda>t. Inr (''medium'', snd st @ [Signal ''Moderate volatility ({}%)'' [t]]))
              else bindE (toFixed vol)
                     (\<lambda>t. Inr (''low'', snd st @ [Signal ''Low volatility ({}%)'' [t]]))))"

definition volatilityBands :: "bollinger option \<Rightarrow> signalText list \<Rightarrow> signalText list" where
  "volatilityBands bo sigs =
     (case bo of
        None \<Rightarrow> sigs
      | Some bb \<Rightarrow>
          (let bw = lastOf (bandwidth bb)
           in if jlt bw (Num 5)
              then sigs @ [Signal ''Bollinger Bands squeeze - potential breakout ahead'' []]
              else if jgt bw (Num 20)
              then sigs @ [Signal ''Bollinger Bands wide - high volatility period'' []]
              else sigs))"

definition analyzeVolatility :: "indicators \<Rightarrow> error + volatilityScore" where
  "analyzeVolatility ind =
     bindE (volatilityRegime (volatility ind) (''medium'', []))
       (\<lambda>st. Inr \<lparr>score = 0, signals = volatilityBands (bollingerBands ind) (snd st),
                  strength = 0, volatilityLevel = fst st\<rparr>)"

subsection \<open>analyzeVolume\<close>

definition volumeRules :: "jsval list \<Rightarrow> jsval list \<Rightarrow> acc \<Rightarrow> acc" where
  "volumeRules volumes obvs a =
     (let currentVol = lastOf volumes;
          avgVol = jdiv (jsum (drop (length volumes - 20) volumes)) (Num 20);
          a1 = (if jgt currentVol (jmul avgVol (Num 2))
                then addSignal 0.3 (Signal ''Significant volume spike detected'' []) a
                else if jgt currentVol (jmul avgVol (Num 1.5))
                then addSignal 0.15 (Signal ''Above-average volume'' []) a
                else if jlt currentVol (jmul avgVol (Num 0.5))
                then addSignal (- 0.1) (Signal ''Low volume - weak momentum'' []) a
                else a);
          obvTrend = drop (length obvs - 10) obvs;
          obvIncreasing = jgt (lastOf obvTrend) (jsnth obvTrend 0)
      in if obvIncreasing
         then addSignal 0.2 (Signal ''OBV trending up - accumulation'' []) a1
         else addSignal (- 0.2) (Signal ''OBV trending down - distribution'' []) a1)"

definition analyzeVolume :: "indicators \<Rightarrow> error + signalScore" where
  "analyzeVolume ind =
     (case (volumeMA ind, obv ind) of
        (Some volumes, Some obvs) \<Rightarrow> Inr (finish (volumeRules volumes obvs (0, [])))
      | _ \<Rightarrow> Inr (finish (0, [])))"

subsection \<open>analyzeSupportResistance\<close>

text \<open>\<open>levels.reduce((prev, curr) => |curr - price| < |prev - price| ? curr : prev, levels[0])\<close>:
  \<open>undefined\<close> on an empty array.\<close>

definition nearestLevel :: "real list \<Rightarrow> real \<Rightarrow> jsval" where
  "nearestLevel levels currentPrice =
     foldl (\<lambda>prev curr.
              if jlt (jabs (jsub curr (Num currentPrice))) (jabs (jsub prev (Num currentPrice)))
              then curr else prev)
           (jsnth (map Num levels) 0) (map Num levels)"

definition srRules :: "srLevels \<Rightarrow> real \<Rightarrow> acc \<Rightarrow> error + acc" where
  "srRules sr currentPrice a =
     (let nearestSupport = nearestLevel (support sr) currentPrice;
          nearestResistance = nearestLevel (resistance sr) currentPrice;
          distanceToSupport =
            jmul (jdiv (jsub (Num currentPrice) nearestSupport) (Num currentPrice)) (Num 100);
          distanceToResistance =
            jmul (jdiv (jsub nearestResistance (Num currentPrice)) (Num currentPrice)) (Num 100)
      in bindE (if jlt distanceToSupport (Num 2)
                then addFixed 0.3 ''Near support level (${})'' nearestSupport a else Inr a)
           (\<lambda>a1. bindE (if jlt distanceToResistance (Num 2)
                         then addFixed (- 0.3) ''Near resistance level (${})'' nearestResistance a1
                         else Inr a1)
              (\<lambda>a2. bindE (toFixed nearestSupport)
                 (\<lambda>s. bindE (toFixed nearestResistance)
                    (\<lambda>r. Inr (pushSignal (Signal ''Support: ${}, Resistance: ${}'' [s, r]) a2))))))"

definition analyzeSupportResistance :: "indicators \<Rightarrow> real \<Rightarrow> error + signalScore" where
  "analyzeSupportResistance ind currentPrice =
     (case supportResistance ind of
        None \<Rightarrow> Inr (finish (0, []))
      | Some sr \<Rightarrow> bindE (srRules sr currentPrice (0, [])) (\<lambda>a. Inr (finish a)))"

subsection \<open>Probability model\<close>

text \<open>The fields \<open>low\<close> and \<open>high\<close> of \<open>expectedRange\<close> are named \<open>range_low\<close> and
  \<open>range_high\<close>.\<close>

record expectedRange =
  range_low :: jsval
  range_high :: jsval

record forecast =
  timeframe :: string
  direction :: string
  probability :: jsval
  confidence :: jsval
  expectedRange :: expectedRange
  mostLikely :: jsval

record distribution =
  shortTerm :: forecast
  mediumTerm :: forecast
  compositeScore :: jsval
  confidenceLevel :: string

text \<open>
  \<open>{...}[key] || dflt\<close> on an object literal. A key of the literal gives its number; any
  other key is looked up along the prototype chain, where the property names of
  \<open>Object.prototype\<close> give a function or an object: a truthy value, so the default is not
  taken, which every later product and comparison converts to \<open>NaN\<close>.
\<close>

definition objectPrototypeKeys :: "string list" where
  "objectPrototypeKeys =
     [''constructor'', ''__defineGetter__'', ''__defineSetter__'', ''hasOwnProperty'',
      ''__lookupGetter__'', ''__lookupSetter__'', ''isPrototypeOf'', ''propertyIsEnumerable'',
      ''toString'', ''valueOf'', ''__proto__'', ''toLocaleString'']"

definition lookupOr ::
  "(jsval \<Rightarrow> jsval) \<Rightarrow> (string \<times> real) list \<Rightarrow> string \<Rightarrow> real \<Rightarrow> jsval" where
  "lookupOr rnd table key dflt =
     (case map_of table key of
        Some v \<Rightarrow> (if truthy (lit rnd v) then lit rnd v else lit rnd dflt)
      | None \<Rightarrow> (if key \<in> set objectPrototypeKeys then NaN else lit rnd dflt))"

definition volatilityMultiplier :: "(jsval \<Rightarrow> jsval) \<Rightarrow> string \<Rightarrow> jsval" where
  "volatilityMultiplier rnd level =
     lookupOr rnd [(''very high'', 0.5), (''high'', 0.7), (''medium'', 0.85), (''low'', 0.95)]
       level 0.85"

definition expectedMoveOf :: "(jsval \<Rightarrow> jsval) \<Rightarrow> string \<Rightarrow> jsval" where
  "expectedMoveOf rnd level =
     lookupOr rnd [(''very high'', 0.15), (''high'', 0.10), (''medium'', 0.07), (''low'', 0.04)]
       level 0.07"

definition getConfidenceLabel :: "(jsval \<Rightarrow> jsval) \<Rightarrow> jsval \<Rightarrow> string" where
  "getConfidenceLabel rnd c =
     (if jge c (lit rnd 0.85) then ''Very High''
      else if jge c (lit rnd 0.70) then ''High''
      else if jge c (lit rnd 0.50) then ''Medium''
      else if jge c (lit rnd 0.30) then ''Low''
      else ''Very Low'')"

definition directionOf :: "(jsval \<Rightarrow> jsval) \<Rightarrow> jsval \<Rightarrow> string" where
  "directionOf rnd normalizedScore =
     (if jgt (jabs normalizedScore) (lit rnd 0.5)
      then (if jgt normalizedScore (Num 0) then ''bullish'' else ''bearish'')
      else if jgt (jabs normalizedScore) (lit rnd 0.25)
      then (if jgt normalizedScore (Num 0) then ''slightly bullish'' else ''slightly bearish'')
      else ''neutral'')"

definition probabilityOf :: "(jsval \<Rightarrow> jsval) \<Rightarrow> jsval \<Rightarrow> jsval" where
  "probabilityOf rnd normalizedScore =
     (if jgt (jabs normalizedScore) (lit rnd 0.5) then jabs normalizedScore
      else if jgt (jabs normalizedScore) (lit rnd 0.25)
      then radd rnd (lit rnd 0.5) (rdiv rnd (jabs normalizedScore) (Num 2))
      else lit rnd 0.5)"

text \<open>\<open>generateProbabilityDistribution\<close> in the arithmetic \<open>rnd\<close>; the composite score and
  the price are numbers of that arithmetic.\<close>

definition generateProbabilityDistribution ::
  "(jsval \<Rightarrow> jsval) \<Rightarrow> real \<Rightarrow> volatilityScore \<Rightarrow> real \<Rightarrow> distribution" where
  "generateProbabilityDistribution rnd score0 volScore price0 =
     (let normalizedScore = lit rnd score0;
          currentPrice = lit rnd price0;
          baseConfidence = volatilityMultiplier rnd (volatilityLevel volScore);
          dir = directionOf rnd normalizedScore;
          prob = probabilityOf rnd normalizedScore;
          expectedMove = expectedMoveOf rnd (volatilityLevel volScore)
      in \<lparr>shortTerm =
            \<lparr>timeframe = ''24 hours'', direction = dir,
             probability = rmul rnd prob (Num 100),
             confidence = rmul rnd baseConfidence (Num 100),
             expectedRange =
               \<lparr>range_low = rmul rnd currentPrice
                               (rsub rnd (Num 1) (rmul rnd expectedMove (lit rnd 0.5))),
                range_high = rmul rnd currentPrice
                               (radd rnd (Num 1) (rmul rnd expectedMove (lit rnd 0.5)))\<rparr>,
             mostLikely = rmul rnd currentPrice
                            (radd rnd (Num 1)
                               (rmul rnd (rmul rnd normalizedScore expectedMove) (lit rnd 0.3)))\<rparr>,
          mediumTerm =
            \<lparr>timeframe = ''7 days'', direction = dir,
             probability = rmul rnd (rmul rnd prob (lit rnd 0.85)) (Num 100),
             confidence = rmul rnd (rmul rnd baseConfidence (lit rnd 0.8)) (Num 100),
             expectedRange =
               \<lparr>range_low = rmul rnd currentPrice
                               (rsub rnd (Num 1) (rmul rnd expectedMove (lit rnd 1.5))),
                range_high = rmul rnd currentPrice
                               (radd rnd (Num 1) (rmul rnd expectedMove (lit rnd 1.5)))\<rparr>,
             mostLikely = rmul rnd currentPrice
                            (radd rnd (Num 1)
                               (rmul rnd (rmul rnd normalizedScore expectedMove) (lit rnd 0.7)))\<rparr>,
          compositeScore = normalizedScore,
          confidenceLevel = getConfidenceLabel rnd baseConfidence\<rparr>)"

subsection \<open>generatePrediction\<close>

text \<open>The weights of \<open>this.indicatorWeights\<close> that the composite score uses.\<close>

definition weight_trend :: real where "weight_trend = 0.25"
definition weight_momentum :: real where "weight_momentum = 0.20"
definition weight_volatility :: real where "weight_volatility = 0.15"
definition weight_volume :: real where "weight_volume = 0.15"
definition weight_support_resistance :: real where "weight_support_resistance = 0.15"

definition compositeOf ::
  "signalScore \<Rightarrow> signalScore \<Rightarrow> volatilityScore \<Rightarrow> signalScore \<Rightarrow> signalScore \<Rightarrow> real" where
  "compositeOf trendScore momentumScore volScore volumeScore srScore =
     score trendScore * weight_trend + score momentumScore * weight_momentum +
     score volScore * weight_volatility + score volumeScore * weight_volume +
     score srScore * weight_support_resistance"

record analysis =
  indicators :: indicators
  currentPrice :: real

record prediction =
  dist :: distribution
  trendSignals :: signalScore
  momentumSignals :: signalScore
  volatilitySignals :: volatilityScore
  volumeSignals :: signalScore
  supportResistanceSignals :: signalScore

text \<open>
  \<open>generatePrediction\<close> from the result of \<open>getAnalysis\<close> (\<open>None\<close> for \<open>null\<close>) up to the
  signal breakdown, in exact arithmetic. The analyzers run outside any \<open>try\<close>, so an
  exception of one of them leaves \<open>generatePrediction\<close>; the signal counts, the risk
  assessment and the database calls that follow are not part of the model.
\<close>

definition generatePrediction :: "analysis option \<Rightarrow> error + prediction option" where
  "generatePrediction ao =
     (case ao of
        None \<Rightarrow> Inr None
      | Some an \<Rightarrow>
          bindE (analyzeTrend (indicators an) (currentPrice an)) (\<lambda>trendScore.
          bindE (analyzeMomentum (indicators an)) (\<lambda>momentumScore.
          bindE (analyzeVolatility (indicators an)) (\<lambda>volScore.
          bindE (analyzeVolume (indicators an)) (\<lambda>volumeScore.
          bindE (analyzeSupportResistance (indicators an) (currentPrice an)) (\<lambda>srScore.
            Inr (Some \<lparr>dist = generateProbabilityDistribution exactArith
                                (compositeOf trendScore momentumScore volScore volumeScore srScore)
                                volScore (currentPrice an),
                       trendSignals = trendScore, momentumSignals = momentumScore,
                       volatilitySignals = volScore, volumeSignals = volumeScore,
                       supportResistanceSignals = srScore\<rparr>)))))))"

section \<open>Prediction store (the database manager)\<close>

text \<open>
  The three tables the accuracy evaluation reads and writes, as lists of rows; a nullable
  column is an \<open>option\<close>. Column \<open>x\<close> of \<open>predictions\<close>, \<open>cryptocurrencies\<close> and
  \<open>price_history\<close> is the field \<open>p_x\<close>, \<open>c_x\<close> and \<open>h_x\<close>. SQL integers are unbounded.
\<close>

record predictionRow =
  p_id :: nat
  p_crypto_id :: string
  p_created_at :: int
  p_prediction_type :: string
  p_timeframe :: int
  p_predicted_direction :: "string option"
  p_predicted_probability :: "real option"
  p_predicted_price_range_low :: "real option"
  p_predicted_price_range_high :: "real option"
  p_confidence_level :: "real option"
  p_actual_direction :: "string option"
  p_actual_price :: "real option"
  p_was_accurate :: "int option"
  p_evaluated_at :: "int option"

record cryptocurrency =
  c_id :: string
  c_current_price :: "real option"

record priceRow =
  h_crypto_id :: string
  h_timestamp :: int
  h_price :: real

record database =
  cryptocurrencies :: "cryptocurrency list"
  price_history :: "priceRow list"
  predictions :: "predictionRow list"

text \<open>
  The object handed to \<open>savePrediction\<close>, and a number bound to a \<open>REAL\<close> column:
  \<open>NaN\<close> is stored as \<open>NULL\<close>. An infinity, which the database would keep, has no place in
  the column as modelled and is stored as \<open>NULL\<close> too.
\<close>

record newPrediction =
  cryptoId :: string
  createdAt :: int
  ptype :: string
  ptimeframe :: int
  pdirection :: string
  pprobability :: jsval
  priceRangeLow :: jsval
  priceRangeHigh :: jsval
  pconfidence :: jsval

definition sqlReal :: "jsval \<Rightarrow> real option" where
  "sqlReal v = (case v of Num x \<Rightarrow> Some x | _ \<Rightarrow> None)"

definition nextId :: "predictionRow list \<Rightarrow> nat" where
  "nextId rows = Suc (foldl max 0 (map p_id rows))"

text \<open>The \<open>INSERT\<close> of \<open>savePrediction\<close>. Foreign keys are enforced: the statement fails
  when \<open>crypto_id\<close> is not the \<open>id\<close> of a row of \<open>cryptocurrencies\<close>.\<close>

datatype dbError = ForeignKeyError

definition savePrediction :: "newPrediction \<Rightarrow> database \<Rightarrow> dbError + database" where
  "savePrediction np db =
     (if cryptoId np \<in> set (map c_id (cryptocurrencies db)) then
        Inr (db\<lparr>predictions := predictions db @
               [\<lparr>p_id = nextId (predictions db), p_crypto_id = cryptoId np,
                 p_created_at = createdAt np, p_prediction_type = ptype np,
                 p_timeframe = ptimeframe np, p_predicted_direction = Some (pdirection np),
                 p_predicted_probability = sqlReal (pprobability np),
                 p_predicted_price_range_low = sqlReal (priceRangeLow np),
                 p_predicted_price_range_high = sqlReal (priceRangeHigh np),
                 p_confidence_level = sqlReal (pconfidence np),
                 p_actual_direction = None, p_actual_price = None,
                 p_was_accurate = None, p_evaluated_at = None\<rparr>]\<rparr>)
      else Inl ForeignKeyError)"

text \<open>\<open>savePredictionForTracking\<close> at time \<open>now\<close>: one row per horizon, the time frame
  in milliseconds, the short-term row first. Both inserts are in one \<open>try\<close> whose
  \<open>catch\<close> logs the error: a failing insert ends the function with what was stored before
  it.\<close>

definition savePredictionForTracking :: "string \<Rightarrow> distribution \<Rightarrow> int \<Rightarrow> database \<Rightarrow> database" where
  "savePredictionForTracking cid pr now db =
     (case savePrediction
             \<lparr>cryptoId = cid, createdAt = now, ptype = ''short_term'',
              ptimeframe = 24 * 60 * 60 * 1000,
              pdirection = direction (shortTerm pr), pprobability = probability (shortTerm pr),
              priceRangeLow = range_low (expectedRange (shortTerm pr)),
              priceRangeHigh = range_high (expectedRange (shortTerm pr)),
              pconfidence = confidence (shortTerm pr)\<rparr>
             db of
        Inl e \<Rightarrow> db
      | Inr db1 \<Rightarrow>
          (case savePrediction
                  \<lparr>cryptoId = cid, createdAt = now, ptype = ''medium_term'',
                   ptimeframe = 7 * 24 * 60 * 60 * 1000,
                   pdirection = direction (mediumTerm pr),
                   pprobability = probability (mediumTerm pr),
                   priceRangeLow = range_low (expectedRange (mediumTerm pr)),
                   priceRangeHigh = range_high (expectedRange (mediumTerm pr)),
                   pconfidence = confidence (mediumTerm pr)\<rparr>
                  db1 of
             Inl e \<Rightarrow> db1
           | Inr db2 \<Rightarrow> db2))"

text \<open>The rows of the \<open>SELECT\<close> of \<open>evaluatePredictions\<close>, each with the joined
  \<open>current_price\<close>.\<close>

definition pendingPredictions :: "database \<Rightarrow> int \<Rightarrow> (predictionRow \<times> real option) list" where
  "pendingPredictions db currentTime =
     concat (map (\<lambda>p. map (\<lambda>c. (p, c_current_price c))
                          (filter (\<lambda>c. c_id c = p_crypto_id p) (cryptocurrencies db)))
                 (filter (\<lambda>p. p_evaluated_at p = None \<and>
                               p_created_at p + p_timeframe p * 1000 \<le> currentTime)
                         (predictions db)))"

text \<open>\<open>SELECT price FROM price_history WHERE crypto_id = ? AND timestamp <= ?
  ORDER BY timestamp DESC LIMIT 1\<close>.\<close>

definition originalPriceOf :: "priceRow list \<Rightarrow> string \<Rightarrow> int \<Rightarrow> real option" where
  "originalPriceOf rows cid t =
     (case filter (\<lambda>h. h_crypto_id h = cid \<and> h_timestamp h \<le> t) rows of
        [] \<Rightarrow> None
      | r # rs \<Rightarrow>
          Some (h_price (foldl (\<lambda>best h. if h_timestamp h > h_timestamp best then h else best)
                               r rs)))"

text \<open>A nullable number in a relational comparison: \<open>null\<close> converts to \<open>0\<close>.\<close>

definition nullToNumber :: "real option \<Rightarrow> real" where
  "nullToNumber v = (case v of None \<Rightarrow> 0 | Some x \<Rightarrow> x)"

definition actualDirectionOf :: "predictionRow \<Rightarrow> real \<Rightarrow> string" where
  "actualDirectionOf pred originalPrice =
     (if nullToNumber (p_actual_price pred) > originalPrice then ''up''
      else if nullToNumber (p_actual_price pred) < originalPrice then ''down''
      else ''neutral'')"

definition wasAccurateOf :: "predictionRow \<Rightarrow> string \<Rightarrow> bool" where
  "wasAccurateOf pred actualDirection =
     (Some actualDirection = p_predicted_direction pred \<and>
      nullToNumber (p_actual_price pred) \<ge> nullToNumber (p_predicted_price_range_low pred) \<and>
      nullToNumber (p_actual_price pred) \<le> nullToNumber (p_predicted_price_range_high pred))"

definition updatePrediction ::
  "string \<Rightarrow> real option \<Rightarrow> int \<Rightarrow> int \<Rightarrow> nat \<Rightarrow> predictionRow list \<Rightarrow> predictionRow list" where
  "updatePrediction actualDirection actualPrice wasAccurate evaluatedAt pid rows =
     map (\<lambda>r. if p_id r = pid
               then r\<lparr>p_actual_direction := Some actualDirection, p_actual_price := actualPrice,
                      p_was_accurate := Some wasAccurate, p_evaluated_at := Some evaluatedAt\<rparr>
               else r)
         rows"

definition evaluateOne :: "int \<Rightarrow> database \<Rightarrow> predictionRow \<times> real option \<Rightarrow> database" where
  "evaluateOne currentTime db pc =
     (let pred = fst pc; current_price = snd pc
      in case originalPriceOf (price_history db) (p_crypto_id pred) (p_created_at pred) of
           None \<Rightarrow> db
         | Some originalPrice \<Rightarrow>
             (let actualDirection = actualDirectionOf pred originalPrice;
                  wasAccurate = wasAccurateOf pred actualDirection
              in db\<lparr>predictions :=
                      updatePrediction actualDirection current_price
                        (if wasAccurate then 1 else 0) currentTime (p_id pred)
                        (predictions db)\<rparr>))"

definition evaluatePredictions :: "database \<Rightarrow> int \<Rightarrow> database \<times> nat" where
  "evaluatePredictions db currentTime =
     (let preds = pendingPredictions db currentTime
      in (foldl (evaluateOne currentTime) db preds, length preds))"

text \<open>The \<open>overall\<close> aggregate of \<open>getHistoricalAccuracy\<close>. \<open>SUM\<close> over no non-null value
  is \<open>NULL\<close>, and so is then the percentage; \<open>ROUND(x, 2)\<close> rounds half away from zero.\<close>

record accuracyStats =
  total_predictions :: nat
  accurate_predictions :: "int option"
  accuracy_percentage :: "real option"

definition sqlRound2 :: "real \<Rightarrow> real" where
  "sqlRound2 x =
     (if 0 \<le> x then real_of_int \<lfloor>x * 100 + 1 / 2\<rfloor> / 100
      else - (real_of_int \<lfloor>- x * 100 + 1 / 2\<rfloor> / 100))"

definition sqlSum :: "int option list \<Rightarrow> int option" where
  "sqlSum vs = (case concat (map (\<lambda>v. case v of None \<Rightarrow> [] | Some x \<Rightarrow> [x]) vs) of
                  [] \<Rightarrow> None | x # xs \<Rightarrow> Some (sum_list (x # xs)))"

definition getHistoricalAccuracy :: "database \<Rightarrow> accuracyStats" where
  "getHistoricalAccuracy db =
     (let evaluated = filter (\<lambda>p. p_evaluated_at p \<noteq> None) (predictions db);
          total = length evaluated;
          accurate = sqlSum (map p_was_accurate evaluated)
      in \<lparr>total_predictions = total, accurate_predictions = accurate,
          accuracy_percentage =
            (case accurate of
               None \<Rightarrow> None
             | Some a \<Rightarrow> if total = 0 then None
                         else Some (sqlRound2 (real_of_int a * 100.0 / real total)))\<rparr>)"

section \<open>Concrete inputs\<close>

text \<open>A snapshot on which every analyzer returns.\<close>

definition sampleSnapshot :: indicators where
  "sampleSnapshot =
     \<lparr>sma20 = Some [Num 10], sma50 = Some [Num 9], sma200 = Some [Num 8],
      rsi = Some [Num 25], macd = None, stochastic = None, cci = None, bollingerBands = None,
      volatility = Some [Num 50], volumeMA = None, obv = None,
      supportResistance = Some \<lparr>resistance = [12], support = [10.9]\<rparr>, adx = None\<rparr>"

text \<open>Fifty hourly bars of a strictly rising price, one price point per bar, and the
  snapshot holding their support and resistance levels.\<close>

definition risingBar :: "nat \<Rightarrow> ohlc" where
  "risingBar i = \<lparr>timestamp = int i * 3600000, openp = 100 + real i, high = 100 + real i,
     low = 100 + real i, close = 100 + real i, volume = 0\<rparr>"

definition risingBars :: "ohlc list" where
  "risingBars = map risingBar [0 ..< 50]"

definition risingSnapshot :: indicators where
  "risingSnapshot =
     \<lparr>sma20 = None, sma50 = None, sma200 = None, rsi = None, macd = None, stochastic = None,
      cci = None, bollingerBands = None, volatility = None, volumeMA = None, obv = None,
      supportResistance = calculateSupportResistance risingBars 50, adx = None\<rparr>"

text \<open>The result of \<open>analyzeVolatility\<close> reduced to a regime label.\<close>

definition regime :: "string \<Rightarrow> volatilityScore" where
  "regime l = \<lparr>score = 0, signals = [], strength = 0, volatilityLevel = l\<rparr>"

text \<open>Bars of a constant price.\<close>

definition flatBar :: ohlc where
  "flatBar = \<lparr>timestamp = 0, openp = 100, high = 100, low = 100, close = 100, volume = 0\<rparr>"

definition flatBars :: "nat \<Rightarrow> ohlc list" where
  "flatBars n = replicate n flatBar"

text \<open>Fourteen bars closing at 100 whose lows dip to 10, 20, 30 and 40.\<close>

definition dipBars :: "ohlc list" where
  "dipBars = map (\<lambda>(i, l). \<lparr>timestamp = int i * 3600000, openp = 100, high = 110, low = l,
                             close = 100, volume = 0\<rparr>)
                 (zip [0 ..< 14]
                      [100, 100, 10, 100, 100, 20, 100, 100, 30, 100, 100, 40, 100, 100])"

text \<open>A store with one asset priced 90 at time 0 and 100 now; the store after a forecast
  was tracked at time 0; and the store holding the one pending prediction of direction
  \<open>up\<close> and range \<open>[95, 105]\<close>.\<close>

definition marketDb :: database where
  "marketDb = \<lparr>cryptocurrencies = [\<lparr>c_id = ''bitcoin'', c_current_price = Some 100\<rparr>],
               price_history = [\<lparr>h_crypto_id = ''bitcoin'', h_timestamp = 0, h_price = 90\<rparr>],
               predictions = []\<rparr>"

definition trackedDb :: database where
  "trackedDb = savePredictionForTracking ''bitcoin''
     (generateProbabilityDistribution exactArith 0.6
        \<lparr>score = 0, signals = [], strength = 0, volatilityLevel = ''high''\<rparr> 100)
     0 marketDb"

definition upRow :: predictionRow where
  "upRow = \<lparr>p_id = 1, p_crypto_id = ''bitcoin'', p_created_at = 0,
            p_prediction_type = ''short_term'', p_timeframe = 86400000,
            p_predicted_direction = Some ''up'', p_predicted_probability = Some 60,
            p_predicted_price_range_low = Some 95, p_predicted_price_range_high = Some 105,
            p_confidence_level = Some 70, p_actual_direction = None, p_actual_price = None,
            p_was_accurate = None, p_evaluated_at = None\<rparr>"

definition vectorDb :: database where
  "vectorDb = marketDb\<lparr>predictions := [upRow]\<rparr>"

section \<open>Properties of the probability model\<close>

lemma binade_numeral:
  "binade (numeral k) m e =
     (if 2 ^ 53 \<le> m then binade (pred_numeral k) (m / 2) (e + 1)
      else if m < 2 ^ 52 \<and> - 1074 < e then binade (pred_numeral k) (m * 2) (e - 1)
      else (m, e))"
  by (simp add: numeral_eq_Suc)

lemmas double_eval = toDouble_def binade_numeral roundHalfEven_def pow2_def roundDouble_def
  lit_def radd_def rsub_def rmul_def rdiv_def jsub_def jgt_def jge_def inf_signed_def Let_def

lemmas exact_eval = exactArith_def lit_def radd_def rsub_def rmul_def rdiv_def jsub_def jgt_def
  jge_def inf_signed_def Let_def

lemmas model_defs = generateProbabilityDistribution_def volatilityMultiplier_def
  expectedMoveOf_def lookupOr_def objectPrototypeKeys_def getConfidenceLabel_def directionOf_def
  probabilityOf_def

lemma double_literals:
  "toDouble 0.5 = Num 0.5"
  "toDouble 0.7 = Num (3152519739159347 / 4503599627370496)"
  "toDouble 0.85 = Num (7656119366529843 / 9007199254740992)"
  "toDouble 0.95 = Num (4278419646001971 / 4503599627370496)"
  "toDouble 0.8 = Num (3602879701896397 / 4503599627370496)"
  "toDouble 0.6 = Num (5404319552844595 / 9007199254740992)"
  "toDouble 0.15 = Num (5404319552844595 / 36028797018963968)"
  "toDouble 0.10 = Num (3602879701896397 / 36028797018963968)"
  "toDouble 0.07 = Num (1261007895663739 / 18014398509481984)"
  "toDouble 0.04 = Num (5764607523034235 / 144115188075855872)"
  by (simp_all add: double_eval)

text \<open>The distributions of the calibration vectors, of a high-volatility call and of a
  call whose label is a property name of \<open>Object.prototype\<close>.\<close>

lemma neutral_exact:
  "generateProbabilityDistribution exactArith 0
      \<lparr>score = 0, signals = [], strength = 0, volatilityLevel = ''medium''\<rparr> 100
   = \<lparr>shortTerm =
        \<lparr>timeframe = ''24 hours'', direction = ''neutral'',
         probability = Num 50, confidence = Num 85,
         expectedRange = \<lparr>range_low = Num (193 / 2), range_high = Num (207 / 2)\<rparr>,
         mostLikely = Num 100\<rparr>,
      mediumTerm =
        \<lparr>timeframe = ''7 days'', direction = ''neutral'',
         probability = Num (85 / 2), confidence = Num 68,
         expectedRange = \<lparr>range_low = Num (179 / 2), range_high = Num (221 / 2)\<rparr>,
         mostLikely = Num 100\<rparr>,
      compositeScore = Num 0, confidenceLevel = ''Very High''\<rparr>"
  by (simp add: model_defs exact_eval)

lemma bullish_exact:
  "generateProbabilityDistribution exactArith 0.6
      \<lparr>score = 0, signals = [], strength = 0, volatilityLevel = ''low''\<rparr> 100
   = \<lparr>shortTerm =
        \<lparr>timeframe = ''24 hours'', direction = ''bullish'',
         probability = Num 60, confidence = Num 95,
         expectedRange = \<lparr>range_low = Num 98, range_high = Num 102\<rparr>,
         mostLikely = Num (2518 / 25)\<rparr>,
      mediumTerm =
        \<lparr>timeframe = ''7 days'', direction = ''bullish'',
         probability = Num 51, confidence = Num 76,
         expectedRange = \<lparr>range_low = Num 94, range_high = Num 106\<rparr>,
         mostLikely = Num (2542 / 25)\<rparr>,
      compositeScore = Num (3 / 5), confidenceLevel = ''Very High''\<rparr>"
  by (simp add: model_defs exact_eval)

lemma neutral_double:
  "generateProbabilityDistribution roundDouble 0
      \<lparr>score = 0, signals = [], strength = 0, volatilityLevel = ''medium''\<rparr> 100
   = \<lparr>shortTerm =
        \<lparr>timeframe = ''24 hours'', direction = ''neutral'',
         probability = Num 50, confidence = Num 85,
         expectedRange = \<lparr>range_low = Num (193 / 2),
                          range_high = Num (7283165022388223 / 70368744177664)\<rparr>,
         mostLikely = Num 100\<rparr>,
      mediumTerm =
        \<lparr>timeframe = ''7 days'', direction = ''neutral'',
         probability = Num (85 / 2), confidence = Num 68,
         expectedRange = \<lparr>range_low = Num (179 / 2), range_high = Num (221 / 2)\<rparr>,
         mostLikely = Num 100\<rparr>,
      compositeScore = Num 0, confidenceLevel = ''Very High''\<rparr>"
  by (simp add: model_defs double_eval)

lemma bullish_double:
  "generateProbabilityDistribution roundDouble 0.6
      \<lparr>score = 0, signals = [], strength = 0, volatilityLevel = ''low''\<rparr> 100
   = \<lparr>shortTerm =
        \<lparr>timeframe = ''24 hours'', direction = ''bullish'',
         probability = Num 60, confidence = Num 95,
         expectedRange = \<lparr>range_low = Num 98, range_high = Num 102\<rparr>,
         mostLikely = Num (7087539913574319 / 70368744177664)\<rparr>,
      mediumTerm =
        \<lparr>timeframe = ''7 days'', direction = ''bullish'',
         probability = Num 51, confidence = Num 76,
         expectedRange = \<lparr>range_low = Num 94, range_high = Num 106\<rparr>,
         mostLikely = Num (7155093907984875 / 70368744177664)\<rparr>,
      compositeScore = Num (5404319552844595 / 9007199254740992),
      confidenceLevel = ''Very High''\<rparr>"
  by (simp add: model_defs double_eval)

lemma high_double:
  "generateProbabilityDistribution roundDouble 0.6 (regime ''high'') 100
   = \<lparr>shortTerm =
        \<lparr>timeframe = ''24 hours'', direction = ''bullish'',
         probability = Num 60, confidence = Num 70,
         expectedRange = \<lparr>range_low = Num 95, range_high = Num 105\<rparr>,
         mostLikely = Num (7163538157286195 / 70368744177664)\<rparr>,
      mediumTerm =
        \<lparr>timeframe = ''7 days'', direction = ''bullish'',
         probability = Num 51,
         confidence = Num (7881299347898367 / 140737488355328),
         expectedRange = \<lparr>range_low = Num 85,
                          range_high = Num (8092405580431359 / 70368744177664)\<rparr>,
         mostLikely = Num (7332423143312589 / 70368744177664)\<rparr>,
      compositeScore = Num (5404319552844595 / 9007199254740992),
      confidenceLevel = ''High''\<rparr>"
  by (simp add: model_defs double_eval regime_def)

lemma inherited_double:
  "generateProbabilityDistribution roundDouble 0.6 (regime ''constructor'') 100
   = \<lparr>shortTerm =
        \<lparr>timeframe = ''24 hours'', direction = ''bullish'',
         probability = Num 60, confidence = NaN,
         expectedRange = \<lparr>range_low = NaN, range_high = NaN\<rparr>,
         mostLikely = NaN\<rparr>,
      mediumTerm =
        \<lparr>timeframe = ''7 days'', direction = ''bullish'',
         probability = Num 51, confidence = NaN,
         expectedRange = \<lparr>range_low = NaN, range_high = NaN\<rparr>,
         mostLikely = NaN\<rparr>,
      compositeScore = Num (5404319552844595 / 9007199254740992),
      confidenceLevel = ''Very Low''\<rparr>"
  by (simp add: model_defs double_eval regime_def)

lemma short_times_08: "rmul roundDouble (Num 70) (lit roundDouble 0.8) = Num 56"
  by (simp add: double_eval)

lemma probability_three_quarters:
  "probability (shortTerm
      (generateProbabilityDistribution roundDouble 0.75 (regime ''high'') 100)) = Num 75
   \<and> probability (mediumTerm
        (generateProbabilityDistribution roundDouble 0.75 (regime ''high'') 100))
       = Num (8972014882652159 / 140737488355328)
   \<and> rmul roundDouble (Num 75) (lit roundDouble 0.85) = Num (255 / 4)"
  by (simp add: model_defs double_eval regime_def)

text \<open>
  Claim C6. \<open>generateProbabilityDistribution\<close> meets the calibration vectors: composite
  score 0, regime \<open>medium\<close>, price 100 give direction \<open>neutral\<close>, short-term probability 50
  and confidence 85; composite score 0.6, regime \<open>low\<close>, price 100 give direction
  \<open>bullish\<close>, short-term probability 60 and confidence 95, medium-term probability 51 and
  confidence 76. The values are the same in exact and in double arithmetic.
\<close>

theorem calibration_vectors:
  "direction (shortTerm (generateProbabilityDistribution exactArith 0
      \<lparr>score = 0, signals = [], strength = 0, volatilityLevel = ''medium''\<rparr> 100)) = ''neutral''
   \<and> probability (shortTerm (generateProbabilityDistribution exactArith 0
      \<lparr>score = 0, signals = [], strength = 0, volatilityLevel = ''medium''\<rparr> 100)) = Num 50
   \<and> confidence (shortTerm (generateProbabilityDistribution exactArith 0
      \<lparr>score = 0, signals = [], strength = 0, volatilityLevel = ''medium''\<rparr> 100)) = Num 85
   \<and> direction (shortTerm (generateProbabilityDistribution exactArith 0.6
      \<lparr>score = 0, signals = [], strength = 0, volatilityLevel = ''low''\<rparr> 100)) = ''bullish''
   \<and> probability (shortTerm (generateProbabilityDistribution exactArith 0.6
      \<lparr>score = 0, signals = [], strength = 0, volatilityLevel = ''low''\<rparr> 100)) = Num 60
   \<and> confidence (shortTerm (generateProbabilityDistribution exactArith 0.6
      \<lparr>score = 0, signals = [], strength = 0, volatilityLevel = ''low''\<rparr> 100)) = Num 95
   \<and> probability (mediumTerm (generateProbabilityDistribution exactArith 0.6
      \<lparr>score = 0, signals = [], strength = 0, volatilityLevel = ''low''\<rparr> 100)) = Num 51
   \<and> confidence (mediumTerm (generateProbabilityDistribution exactArith 0.6
      \<lparr>score = 0, signals = [], strength = 0, volatilityLevel = ''low''\<rparr> 100)) = Num 76
   \<and> direction (shortTerm (generateProbabilityDistribution roundDouble 0
      \<lparr>score = 0, signals = [], strength = 0, volatilityLevel = ''medium''\<rparr> 100)) = ''neutral''
   \<and> probability (shortTerm (generateProbabilityDistribution roundDouble 0
      \<lparr>score = 0, signals = [], strength = 0, volatilityLevel = ''medium''\<rparr> 100)) = Num 50
   \<and> confidence (shortTerm (generateProbabilityDistribution roundDouble 0
      \<lparr>score = 0, signals = [], strength = 0, volatilityLevel = ''medium''\<rparr> 100)) = Num 85
   \<and> direction (shortTerm (generateProbabilityDistribution roundDouble 0.6
      \<lparr>score = 0, signals = [], strength = 0, volatilityLevel = ''low''\<rparr> 100)) = ''bullish''
   \<and> probability (shortTerm (generateProbabilityDistribution roundDouble 0.6
      \<lparr>score = 0, signals = [], strength = 0, volatilityLevel = ''low''\<rparr> 100)) = Num 60
   \<and> confidence (shortTerm (generateProbabilityDistribution roundDouble 0.6
      \<lparr>score = 0, signals = [], strength = 0, volatilityLevel = ''low''\<rparr> 100)) = Num 95
   \<and> probability (mediumTerm (generateProbabilityDistribution roundDouble 0.6
      \<lparr>score = 0, signals = [], strength = 0, volatilityLevel = ''low''\<rparr> 100)) = Num 51
   \<and> confidence (mediumTerm (generateProbabilityDistribution roundDouble 0.6
      \<lparr>score = 0, signals = [], strength = 0, volatilityLevel = ''low''\<rparr> 100)) = Num 76"
  unfolding neutral_exact bullish_exact neutral_double bullish_double by simp

text \<open>
  Claim C7, as stated, has the medium-term confidence equal to the short-term confidence
  times 0.8 for every regime label. In the double arithmetic of the code, composite score
  0.6, regime \<open>high\<close> and price 100 give short-term confidence 70 and medium-term
  confidence \<open>(0.7 * 0.8) * 100 = 55.99999999999999\<close>, which is not \<open>70 * 0.8 = 56\<close>;
  composite score 0.75 gives short-term probability 75 and medium-term probability
  \<open>(0.75 * 0.85) * 100 = 63.74999999999999\<close>, which is not \<open>75 * 0.85 = 63.75\<close>.
  For the label \<open>constructor\<close> both confidences and every range bound are \<open>NaN\<close>, so the
  medium-term forecast is neither less confident nor wider.
\<close>

theorem dampening_counterexample:
  "confidence (shortTerm (generateProbabilityDistribution roundDouble 0.6 (regime ''high'') 100))
     = Num 70
   \<and> confidence (mediumTerm
        (generateProbabilityDistribution roundDouble 0.6 (regime ''high'') 100))
       = Num (7881299347898367 / 140737488355328)
   \<and> rmul roundDouble
        (confidence (shortTerm
           (generateProbabilityDistribution roundDouble 0.6 (regime ''high'') 100)))
        (lit roundDouble 0.8)
       = Num 56
   \<and> confidence (mediumTerm
        (generateProbabilityDistribution roundDouble 0.6 (regime ''high'') 100))
       \<noteq> rmul roundDouble
           (confidence (shortTerm
              (generateProbabilityDistribution roundDouble 0.6 (regime ''high'') 100)))
           (lit roundDouble 0.8)
   \<and> probability (shortTerm
        (generateProbabilityDistribution roundDouble 0.75 (regime ''high'') 100)) = Num 75
   \<and> probability (mediumTerm
        (generateProbabilityDistribution roundDouble 0.75 (regime ''high'') 100))
       = Num (8972014882652159 / 140737488355328)
   \<and> rmul roundDouble
        (probability (shortTerm
           (generateProbabilityDistribution roundDouble 0.75 (regime ''high'') 100)))
        (lit roundDouble 0.85)
       = Num (255 / 4)
   \<and> confidence (shortTerm
        (generateProbabilityDistribution roundDouble 0.6 (regime ''constructor'') 100)) = NaN
   \<and> confidence (mediumTerm
        (generateProbabilityDistribution roundDouble 0.6 (regime ''constructor'') 100)) = NaN
   \<and> \<not> jlt
        (confidence (mediumTerm
           (generateProbabilityDistribution roundDouble 0.6 (regime ''constructor'') 100)))
        (confidence (shortTerm
           (generateProbabilityDistribution roundDouble 0.6 (regime ''constructor'') 100)))
   \<and> \<not> jlt
        (range_high (expectedRange (shortTerm
           (generateProbabilityDistribution roundDouble 0.6 (regime ''constructor'') 100))))
        (range_high (expectedRange (mediumTerm
           (generateProbabilityDistribution roundDouble 0.6 (regime ''constructor'') 100))))"
  unfolding high_double inherited_double using short_times_08 probability_three_quarters
  by simp

text \<open>The looked-up constants of a label that is no property name of
  \<open>Object.prototype\<close>, and the dampening of each confidence constant in double
  arithmetic.\<close>

lemma multiplier_exact:
  "level \<notin> set objectPrototypeKeys \<Longrightarrow>
   volatilityMultiplier exactArith level \<in> {Num 0.5, Num 0.7, Num 0.85, Num 0.95}"
  by (simp add: volatilityMultiplier_def lookupOr_def lit_def exactArith_def)

lemma move_exact:
  "level \<notin> set objectPrototypeKeys \<Longrightarrow>
   expectedMoveOf exactArith level \<in> {Num 0.15, Num 0.10, Num 0.07, Num 0.04}"
  by (simp add: expectedMoveOf_def lookupOr_def lit_def exactArith_def)

lemma positive_constants:
  "x \<in> {Num 0.5, Num 0.7, Num 0.85, Num 0.95, Num 0.15, Num 0.10, Num 0.07, Num 0.04} \<Longrightarrow>
   \<exists>c. x = Num c \<and> 0 < c"
  by (elim insertE emptyE) (rule exI, erule conjI, simp)+

lemma multiplier_double:
  "level \<notin> set objectPrototypeKeys \<Longrightarrow>
   volatilityMultiplier roundDouble level
     \<in> {toDouble 0.5, toDouble 0.7, toDouble 0.85, toDouble 0.95}"
  by (simp add: volatilityMultiplier_def lookupOr_def lit_def roundDouble_def double_literals)

lemma double_confidence_dampened:
  "c \<in> {toDouble 0.5, toDouble 0.7, toDouble 0.85, toDouble 0.95} \<Longrightarrow>
   jlt (rmul roundDouble (rmul roundDouble c (lit roundDouble 0.8)) (Num 100))
       (rmul roundDouble c (Num 100))"
  unfolding double_literals by (auto simp: double_eval)

lemma move_double:
  "level \<notin> set objectPrototypeKeys \<Longrightarrow>
   expectedMoveOf roundDouble level
     \<in> {toDouble 0.15, toDouble 0.10, toDouble 0.07, toDouble 0.04}"
  by (simp add: expectedMoveOf_def lookupOr_def lit_def roundDouble_def double_literals)

lemma double_range_widened:
  "e \<in> {toDouble 0.15, toDouble 0.10, toDouble 0.07, toDouble 0.04} \<Longrightarrow>
   jlt (rsub roundDouble (Num 1) (rmul roundDouble e (lit roundDouble 1.5)))
       (rsub roundDouble (Num 1) (rmul roundDouble e (lit roundDouble 0.5)))
   \<and> jlt (radd roundDouble (Num 1) (rmul roundDouble e (lit roundDouble 0.5)))
         (radd roundDouble (Num 1) (rmul roundDouble e (lit roundDouble 1.5)))"
  unfolding double_literals by (auto simp: double_eval)

lemma probability_exact_pos:
  "\<exists>p. probabilityOf exactArith (Num s) = Num p \<and> 0 < p"
proof -
  have "probabilityOf exactArith (Num s)
      = Num (if \<bar>s\<bar> > 0.5 then \<bar>s\<bar> else if \<bar>s\<bar> > 0.25 then 0.5 + \<bar>s\<bar> / 2 else 0.5)"
    by (simp add: probabilityOf_def exact_eval)
  moreover have "0 < (if \<bar>s\<bar> > 0.5 then \<bar>s\<bar> else if \<bar>s\<bar> > 0.25 then 0.5 + \<bar>s\<bar> / 2 else 0.5)"
    by auto
  ultimately show ?thesis by blast
qed

text \<open>
  Claim C7, amended. For every composite score, every positive price and every regime
  label that is not a property name of \<open>Object.prototype\<close> (one of the four regimes, or
  a label that takes the defaults), the medium-term forecast is a dampened version of the
  short-term forecast of the same call. It has the same direction. With the probability
  \<open>p\<close>, the multiplier \<open>c\<close> and the expected move \<open>e\<close> of the call, its probability is
  \<open>(p * 0.85) * 100\<close> against \<open>p * 100\<close>, its confidence \<open>(c * 0.8) * 100\<close> against
  \<open>c * 100\<close> and its range \<open>price * (1 -/+ e * 1.5)\<close> against \<open>price * (1 -/+ e * 0.5)\<close>,
  each operation rounded as the arithmetic rounds it. In double arithmetic its confidence
  is strictly lower and its range is strictly wider as a fraction of price:
  \<open>1 - e * 1.5 < 1 - e * 0.5\<close> and \<open>1 + e * 0.5 < 1 + e * 1.5\<close>. In exact arithmetic its
  confidence and its probability are strictly lower and its range is strictly wider at
  both ends.
\<close>

theorem medium_term_dampened:
  assumes "volatilityLevel v \<notin> set objectPrototypeKeys" and "0 < price"
  shows "direction (mediumTerm (generateProbabilityDistribution rnd s v price))
           = direction (shortTerm (generateProbabilityDistribution rnd s v price))
       \<and> probability (shortTerm (generateProbabilityDistribution rnd s v price))
           = rmul rnd (probabilityOf rnd (lit rnd s)) (Num 100)
       \<and> probability (mediumTerm (generateProbabilityDistribution rnd s v price))
           = rmul rnd (rmul rnd (probabilityOf rnd (lit rnd s)) (lit rnd 0.85)) (Num 100)
       \<and> confidence (shortTerm (generateProbabilityDistribution rnd s v price))
           = rmul rnd (volatilityMultiplier rnd (volatilityLevel v)) (Num 100)
       \<and> confidence (mediumTerm (generateProbabilityDistribution rnd s v price))
           = rmul rnd (rmul rnd (volatilityMultiplier rnd (volatilityLevel v)) (lit rnd 0.8))
               (Num 100)
       \<and> expectedRange (shortTerm (generateProbabilityDistribution rnd s v price))
           = \<lparr>range_low = rmul rnd (lit rnd price) (rsub rnd (Num 1)
                  (rmul rnd (expectedMoveOf rnd (volatilityLevel v)) (lit rnd 0.5))),
              range_high = rmul rnd (lit rnd price) (radd rnd (Num 1)
                  (rmul rnd (expectedMoveOf rnd (volatilityLevel v)) (lit rnd 0.5)))\<rparr>
       \<and> expectedRange (mediumTerm (generateProbabilityDistribution rnd s v price))
           = \<lparr>range_low = rmul rnd (lit rnd price) (rsub rnd (Num 1)
                  (rmul rnd (expectedMoveOf rnd (volatilityLevel v)) (lit rnd 1.5))),
              range_high = rmul rnd (lit rnd price) (radd rnd (Num 1)
                  (rmul rnd (expectedMoveOf rnd (volatilityLevel v)) (lit rnd 1.5)))\<rparr>
       \<and> jlt (confidence (mediumTerm (generateProbabilityDistribution roundDouble s v price)))
             (confidence (shortTerm (generateProbabilityDistribution roundDouble s v price)))
       \<and> jlt (rsub roundDouble (Num 1)
                (rmul roundDouble (expectedMoveOf roundDouble (volatilityLevel v))
                   (lit roundDouble 1.5)))
             (rsub roundDouble (Num 1)
                (rmul roundDouble (expectedMoveOf roundDouble (volatilityLevel v))
                   (lit roundDouble 0.5)))
       \<and> jlt (radd roundDouble (Num 1)
                (rmul roundDouble (expectedMoveOf roundDouble (volatilityLevel v))
                   (lit roundDouble 0.5)))
             (radd roundDouble (Num 1)
                (rmul roundDouble (expectedMoveOf roundDouble (volatilityLevel v))
                   (lit roundDouble 1.5)))
       \<and> jlt (confidence (mediumTerm (generateProbabilityDistribution exactArith s v price)))
             (confidence (shortTerm (generateProbabilityDistribution exactArith s v price)))
       \<and> jlt (probability (mediumTerm (generateProbabilityDistribution exactArith s v price)))
             (probability (shortTerm (generateProbabilityDistribution exactArith s v price)))
       \<and> jlt (range_low (expectedRange
                 (mediumTerm (generateProbabilityDistribution exactArith s v price))))
             (range_low (expectedRange
                 (shortTerm (generateProbabilityDistribution exactArith s v price))))
       \<and> jlt (range_high (expectedRange
                 (shortTerm (generateProbabilityDistribution exactArith s v price))))
             (range_high (expectedRange
                 (mediumTerm (generateProbabilityDistribution exactArith s v price))))"
proof -
  have shape: "direction (mediumTerm (generateProbabilityDistribution rnd s v price))
           = direction (shortTerm (generateProbabilityDistribution rnd s v price))
       \<and> probability (shortTerm (generateProbabilityDistribution rnd s v price))
           = rmul rnd (probabilityOf rnd (lit rnd s)) (Num 100)
       \<and> probability (mediumTerm (generateProbabilityDistribution rnd s v price))
           = rmul rnd (rmul rnd (probabilityOf rnd (lit rnd s)) (lit rnd 0.85)) (Num 100)
       \<and> confidence (shortTerm (generateProbabilityDistribution rnd s v price))
           = rmul rnd (volatilityMultiplier rnd (volatilityLevel v)) (Num 100)
       \<and> confidence (mediumTerm (generateProbabilityDistribution rnd s v price))
           = rmul rnd (rmul rnd (volatilityMultiplier rnd (volatilityLevel v)) (lit rnd 0.8))
               (Num 100)
       \<and> expectedRange (shortTerm (generateProbabilityDistribution rnd s v price))
           = \<lparr>range_low = rmul rnd (lit rnd price) (rsub rnd (Num 1)
                  (rmul rnd (expectedMoveOf rnd (volatilityLevel v)) (lit rnd 0.5))),
              range_high = rmul rnd (lit rnd price) (radd rnd (Num 1)
                  (rmul rnd (expectedMoveOf rnd (volatilityLevel v)) (lit rnd 0.5)))\<rparr>
       \<and> expectedRange (mediumTerm (generateProbabilityDistribution rnd s v price))
           = \<lparr>range_low = rmul rnd (lit rnd price) (rsub rnd (Num 1)
                  (rmul rnd (expectedMoveOf rnd (volatilityLevel v)) (lit rnd 1.5))),
              range_high = rmul rnd (lit rnd price) (radd rnd (Num 1)
                  (rmul rnd (expectedMoveOf rnd (volatilityLevel v)) (lit rnd 1.5)))\<rparr>" for rnd
    by (simp add: generateProbabilityDistribution_def Let_def)
  have dbl: "jlt (confidence (mediumTerm (generateProbabilityDistribution roundDouble s v price)))
             (confidence (shortTerm (generateProbabilityDistribution roundDouble s v price)))"
    using double_confidence_dampened [OF multiplier_double [OF assms(1)]]
    by (simp only: shape [of roundDouble])
  obtain c where c: "volatilityMultiplier exactArith (volatilityLevel v) = Num c" "0 < c"
    using multiplier_exact [OF assms(1)] positive_constants by blast
  obtain e where e: "expectedMoveOf exactArith (volatilityLevel v) = Num e" "0 < e"
    using move_exact [OF assms(1)] positive_constants by blast
  obtain p where p: "probabilityOf exactArith (Num s) = Num p" "0 < p"
    using probability_exact_pos [of s] by blast
  have ex: "jlt (confidence (mediumTerm (generateProbabilityDistribution exactArith s v price)))
             (confidence (shortTerm (generateProbabilityDistribution exactArith s v price)))
       \<and> jlt (probability (mediumTerm (generateProbabilityDistribution exactArith s v price)))
             (probability (shortTerm (generateProbabilityDistribution exactArith s v price)))
       \<and> jlt (range_low (expectedRange
                 (mediumTerm (generateProbabilityDistribution exactArith s v price))))
             (range_low (expectedRange
                 (shortTerm (generateProbabilityDistribution exactArith s v price))))
       \<and> jlt (range_high (expectedRange
                 (shortTerm (generateProbabilityDistribution exactArith s v price))))
             (range_high (expectedRange
                 (mediumTerm (generateProbabilityDistribution exactArith s v price))))"
    using c e p assms(2)
    by (simp add: shape [of exactArith]) (simp add: exact_eval c e p)
  note wide = double_range_widened [OF move_double [OF assms(1)]]
  from shape [of rnd] dbl wide ex show ?thesis by (simp only: simp_thms)
qed

theorem medium_term_dampened_witness:
  "volatilityLevel (regime ''high'') \<notin> set objectPrototypeKeys \<and> (0::real) < 100
   \<and> jlt (confidence (mediumTerm
             (generateProbabilityDistribution roundDouble 0.6 (regime ''high'') 100)))
          (confidence (shortTerm
             (generateProbabilityDistribution roundDouble 0.6 (regime ''high'') 100)))
   \<and> jlt (rsub roundDouble (Num 1)
            (rmul roundDouble (expectedMoveOf roundDouble (volatilityLevel (regime ''high'')))
               (lit roundDouble 1.5)))
          (rsub roundDouble (Num 1)
            (rmul roundDouble (expectedMoveOf roundDouble (volatilityLevel (regime ''high'')))
               (lit roundDouble 0.5)))
   \<and> jlt (range_low (expectedRange (mediumTerm
             (generateProbabilityDistribution exactArith 0.6 (regime ''high'') 100))))
          (range_low (expectedRange (shortTerm
             (generateProbabilityDistribution exactArith 0.6 (regime ''high'') 100))))
   \<and> jlt (range_high (expectedRange (shortTerm
             (generateProbabilityDistribution exactArith 0.6 (regime ''high'') 100))))
          (range_high (expectedRange (mediumTerm
             (generateProbabilityDistribution exactArith 0.6 (regime ''high'') 100))))"
proof -
  have label: "volatilityLevel (regime ''high'') \<notin> set objectPrototypeKeys"
    by (simp add: regime_def objectPrototypeKeys_def)
  have pos: "(0::real) < 100" by simp
  from medium_term_dampened [OF label pos, of roundDouble "0.6"] label pos
  show ?thesis by blast
qed

section \<open>Properties of the signal scorers\<close>

lemmas js_defs = jsub_def jgt_def inf_signed_def jsnth_def lastOf_def lastOfOpt_def jsum_def

lemmas scoring_defs = bindE_def toFixed_def addSignal_def pushSignal_def addFixed_def
  pushFixed_def clampScore_def finish_def Let_def

lemma clampScore_bounds: "- 1 \<le> clampScore s \<and> clampScore s \<le> 1"
  by (simp add: clampScore_def)

lemma finish_score_bounds: "- 1 \<le> score (finish a) \<and> score (finish a) \<le> 1"
  by (simp add: finish_def clampScore_bounds)

lemma analyzeTrend_bounds:
  "analyzeTrend ind p = Inr t \<Longrightarrow> - 1 \<le> score t \<and> score t \<le> 1"
  unfolding analyzeTrend_def bindE_def
  by (auto split: sum.splits simp: finish_score_bounds)

lemma analyzeMomentum_bounds:
  "analyzeMomentum ind = Inr t \<Longrightarrow> - 1 \<le> score t \<and> score t \<le> 1"
  unfolding analyzeMomentum_def bindE_def
  by (auto split: sum.splits simp: finish_score_bounds)

lemma analyzeVolume_bounds:
  "analyzeVolume ind = Inr t \<Longrightarrow> - 1 \<le> score t \<and> score t \<le> 1"
  unfolding analyzeVolume_def
  by (auto split: option.splits simp: finish_score_bounds)

lemma analyzeSupportResistance_bounds:
  "analyzeSupportResistance ind p = Inr t \<Longrightarrow> - 1 \<le> score t \<and> score t \<le> 1"
  unfolding analyzeSupportResistance_def bindE_def
  by (auto split: sum.splits option.splits simp: finish_score_bounds)

lemma analyzeVolatility_zero:
  "analyzeVolatility ind = Inr v \<Longrightarrow> score v = 0"
  unfolding analyzeVolatility_def bindE_def
  by (auto split: sum.splits)

lemma sample_trend:
  "analyzeTrend sampleSnapshot 11 =
     Inr \<lparr>score = 4 / 5,
          signals = [Signal ''Price above 20-day MA (bullish)'' [],
                     Signal ''Price above 50-day MA (bullish)'' [],
                     Signal ''Golden cross present (bullish)'' [],
                     Signal ''MAs in bullish alignment'' []],
          strength = 4 / 5\<rparr>"
  by (simp add: sampleSnapshot_def analyzeTrend_def trendADX_def trendMA_def js_defs scoring_defs)

lemma sample_momentum:
  "analyzeMomentum sampleSnapshot =
     Inr \<lparr>score = 3 / 10,
          signals = [Signal ''RSI oversold ({}) - potential bounce'' [Num 25]],
          strength = 3 / 10\<rparr>"
  by (simp add: sampleSnapshot_def analyzeMomentum_def momentumRSI_def momentumMACD_def
      momentumStochastic_def momentumCCI_def js_defs scoring_defs)

lemma sample_volatility:
  "analyzeVolatility sampleSnapshot =
     Inr \<lparr>score = 0, signals = [Signal ''Moderate volatility ({}%)'' [Num 50]],
          strength = 0, volatilityLevel = ''medium''\<rparr>"
  by (simp add: sampleSnapshot_def analyzeVolatility_def volatilityRegime_def
      volatilityBands_def js_defs scoring_defs)

lemma sample_volume:
  "analyzeVolume sampleSnapshot = Inr \<lparr>score = 0, signals = [], strength = 0\<rparr>"
  by (simp add: sampleSnapshot_def analyzeVolume_def js_defs scoring_defs)

lemma sample_support_resistance:
  "analyzeSupportResistance sampleSnapshot 11 =
     Inr \<lparr>score = 3 / 10,
          signals = [Signal ''Near support level (${})'' [Num (109 / 10)],
                     Signal ''Support: ${}, Resistance: ${}'' [Num (109 / 10), Num 12]],
          strength = 3 / 10\<rparr>"
  by (simp add: sampleSnapshot_def analyzeSupportResistance_def srRules_def nearestLevel_def
      js_defs scoring_defs)

lemma compositeOf_weighted:
  "score v = 0 \<Longrightarrow>
   compositeOf t m v vol sr
     = score t * 0.25 + score m * 0.20 + score vol * 0.15 + score sr * 0.15"
  by (simp add: compositeOf_def weight_trend_def weight_momentum_def weight_volatility_def
      weight_volume_def weight_support_resistance_def)

text \<open>The composite score that \<open>generatePrediction\<close> hands to the probability model and
  stores in its result is such a weighted sum.\<close>

lemma generatePrediction_composite:
  assumes "generatePrediction (Some an) = Inr (Some pr)"
  shows "\<exists>c. compositeScore (dist pr) = Num c \<and> - 1 \<le> c \<and> c \<le> 1"
proof -
  from assms obtain t m v vol sr where
    t: "analyzeTrend (indicators an) (currentPrice an) = Inr t"
    and m: "analyzeMomentum (indicators an) = Inr m"
    and v: "analyzeVolatility (indicators an) = Inr v"
    and vol: "analyzeVolume (indicators an) = Inr vol"
    and sr: "analyzeSupportResistance (indicators an) (currentPrice an) = Inr sr"
    and pr: "compositeScore (dist pr) = Num (compositeOf t m v vol sr)"
    by (auto simp: generatePrediction_def bindE_def generateProbabilityDistribution_def Let_def
        lit_def exactArith_def split: sum.splits)
  note b = analyzeTrend_bounds [OF t] analyzeMomentum_bounds [OF m]
    analyzeVolume_bounds [OF vol] analyzeSupportResistance_bounds [OF sr]
  have z: "score v = 0" by (rule analyzeVolatility_zero [OF v])
  from b z show ?thesis by (simp add: pr compositeOf_weighted)
qed

text \<open>
  Claim C5. Whenever the five analyzers return on a snapshot, the composite score, the sum
  of the category scores weighted 0.25 (trend), 0.20 (momentum), 0.15 (volatility), 0.15
  (volume) and 0.15 (support/resistance), lies in \<open>[-1, 1]\<close>: every category score is
  clamped to \<open>[-1, 1]\<close> and the volatility score is 0.
\<close>

theorem composite_score_in_range:
  assumes "analyzeTrend ind p = Inr t"
    and "analyzeMomentum ind = Inr m"
    and "analyzeVolatility ind = Inr v"
    and "analyzeVolume ind = Inr vol"
    and "analyzeSupportResistance ind p = Inr sr"
  shows "- 1 \<le> compositeOf t m v vol sr \<and> compositeOf t m v vol sr \<le> 1
       \<and> compositeOf t m v vol sr
           = score t * 0.25 + score m * 0.20 + score vol * 0.15 + score sr * 0.15
       \<and> score v = 0
       \<and> \<bar>score t\<bar> \<le> 1 \<and> \<bar>score m\<bar> \<le> 1 \<and> \<bar>score vol\<bar> \<le> 1 \<and> \<bar>score sr\<bar> \<le> 1"
proof -
  note b = analyzeTrend_bounds [OF assms(1)] analyzeMomentum_bounds [OF assms(2)]
    analyzeVolume_bounds [OF assms(4)] analyzeSupportResistance_bounds [OF assms(5)]
  have z: "score v = 0" by (rule analyzeVolatility_zero [OF assms(3)])
  from b z show ?thesis by (simp add: compositeOf_weighted abs_le_iff)
qed

theorem composite_score_in_range_witness:
  "analyzeTrend sampleSnapshot 11 =
     Inr \<lparr>score = 4 / 5,
          signals = [Signal ''Price above 20-day MA (bullish)'' [],
                     Signal ''Price above 50-day MA (bullish)'' [],
                     Signal ''Golden cross present (bullish)'' [],
                     Signal ''MAs in bullish alignment'' []],
          strength = 4 / 5\<rparr>
   \<and> analyzeSupportResistance sampleSnapshot 11 =
     Inr \<lparr>score = 3 / 10,
          signals = [Signal ''Near support level (${})'' [Num (109 / 10)],
                     Signal ''Support: ${}, Resistance: ${}'' [Num (109 / 10), Num 12]],
          strength = 3 / 10\<rparr>
   \<and> compositeOf
        \<lparr>score = 4 / 5,
         signals = [Signal ''Price above 20-day MA (bullish)'' [],
                    Signal ''Price above 50-day MA (bullish)'' [],
                    Signal ''Golden cross present (bullish)'' [],
                    Signal ''MAs in bullish alignment'' []],
         strength = 4 / 5\<rparr>
        \<lparr>score = 3 / 10,
         signals = [Signal ''RSI oversold ({}) - potential bounce'' [Num 25]],
         strength = 3 / 10\<rparr>
        \<lparr>score = 0, signals = [Signal ''Moderate volatility ({}%)'' [Num 50]],
         strength = 0, volatilityLevel = ''medium''\<rparr>
        \<lparr>score = 0, signals = [], strength = 0\<rparr>
        \<lparr>score = 3 / 10,
         signals = [Signal ''Near support level (${})'' [Num (109 / 10)],
                    Signal ''Support: ${}, Resistance: ${}'' [Num (109 / 10), Num 12]],
         strength = 3 / 10\<rparr>
       = 0.305"
  using composite_score_in_range [OF sample_trend sample_momentum sample_volatility
      sample_volume sample_support_resistance]
    sample_trend sample_support_resistance
  by simp

lemma sorted_no_maxima: "sorted hs \<Longrightarrow> localMaxima hs = []"
proof -
  assume s: "sorted hs"
  have "\<not> (hs ! i > hs ! (i + 1))" if "i \<in> set [2 ..< length hs - 2]" for i
  proof -
    from that have "i + 1 < length hs" by auto
    with s have "hs ! i \<le> hs ! (i + 1)" by (simp add: sorted_nth_mono)
    then show ?thesis by simp
  qed
  then have "filter (\<lambda>i. hs ! i > hs ! (i - 1) \<and> hs ! i > hs ! (i - 2) \<and>
                       hs ! i > hs ! (i + 1) \<and> hs ! i > hs ! (i + 2)) [2 ..< length hs - 2] = []"
    by (simp add: filter_empty_conv)
  then show ?thesis by (simp add: localMaxima_def)
qed

lemma sorted_no_minima: "sorted ls \<Longrightarrow> localMinima ls = []"
proof -
  assume s: "sorted ls"
  have "\<not> (ls ! i < ls ! (i - 1))" if "i \<in> set [2 ..< length ls - 2]" for i
  proof -
    from that have "i < length ls" "i - 1 \<le> i" by auto
    with s have "ls ! (i - 1) \<le> ls ! i" by (simp add: sorted_nth_mono)
    then show ?thesis by simp
  qed
  then have "filter (\<lambda>i. ls ! i < ls ! (i - 1) \<and> ls ! i < ls ! (i - 2) \<and>
                       ls ! i < ls ! (i + 1) \<and> ls ! i < ls ! (i + 2)) [2 ..< length ls - 2] = []"
    by (simp add: filter_empty_conv)
  then show ?thesis by (simp add: localMinima_def)
qed

lemma rising_levels:
  "calculateSupportResistance risingBars 50 = Some \<lparr>resistance = [], support = []\<rparr>"
proof -
  have len: "length risingBars = 50" by (simp add: risingBars_def)
  have h: "map high risingBars = map (\<lambda>i. 100 + real i) [0 ..< 50]"
    and l: "map low risingBars = map (\<lambda>i. 100 + real i) [0 ..< 50]"
    by (simp_all add: risingBars_def risingBar_def)
  have "sorted_wrt (\<lambda>x y. 100 + real x \<le> 100 + real y) [0 ..< 50]"
    by (rule sorted_wrt_mono_rel [where P = "(\<le>)"]) auto
  then have s: "sorted (map (\<lambda>i. 100 + real i) [0 ..< 50])"
    by (simp only: sorted_map)
  have "localMaxima (map high risingBars) = []" "localMinima (map low risingBars) = []"
    unfolding h l using s by (rule sorted_no_maxima, rule sorted_no_minima)
  then show ?thesis
    by (simp add: calculateSupportResistance_def sliceLast_def resistanceLevels_def
        supportLevels_def Let_def len clusterLevels_def)
qed

lemma error_is_TypeError: "(e :: error) = TypeError"
  by (cases e) simp

lemma nearestLevel_Nil: "nearestLevel [] p = Undefined"
  by (simp add: nearestLevel_def jsnth_def)

lemma toFixed_Undefined: "toFixed Undefined = Inl TypeError"
  by (simp add: toFixed_def)

lemma final_signal_throws:
  assumes "toFixed s = Inl TypeError \<or> toFixed r = Inl TypeError"
  shows "bindE A (\<lambda>a1. bindE (B a1) (\<lambda>a2. bindE (toFixed s) (\<lambda>s'. bindE (toFixed r)
           (\<lambda>r'. Inr (F a2 s' r'))))) = Inl TypeError"
  using assms by (auto simp: bindE_def error_is_TypeError split: sum.splits)

lemma empty_levels_throw:
  assumes "supportResistance ind = Some sr" and "support sr = [] \<or> resistance sr = []"
  shows "analyzeSupportResistance ind p = Inl TypeError"
proof -
  from assms(2) have "toFixed (nearestLevel (support sr) p) = Inl TypeError
      \<or> toFixed (nearestLevel (resistance sr) p) = Inl TypeError"
    by (auto simp: nearestLevel_Nil toFixed_Undefined)
  then have "srRules sr p a = Inl TypeError" for a
    unfolding srRules_def Let_def by (rule final_signal_throws)
  then show ?thesis
    by (simp add: analyzeSupportResistance_def assms(1) bindE_def)
qed

text \<open>So does \<open>generatePrediction\<close>, on every analysis with such a snapshot.\<close>

lemma generatePrediction_throws_on_empty_levels:
  assumes "supportResistance (indicators an) = Some sr"
    and "support sr = [] \<or> resistance sr = []"
  shows "generatePrediction (Some an) = Inl TypeError"
  using empty_levels_throw [OF assms, of "currentPrice an"]
  by (auto simp: generatePrediction_def bindE_def error_is_TypeError split: sum.splits)

text \<open>
  Claim C3. The claim is that every analyzer and \<open>generatePrediction\<close> return a value on
  every snapshot, empty support or resistance lists included. On fifty bars of a strictly
  rising price \<open>calculateSupportResistance\<close> returns two empty lists, and on the snapshot
  holding them \<open>analyzeSupportResistance\<close> throws a TypeError, which leaves
  \<open>generatePrediction\<close> as well.
\<close>

theorem rising_series_throws:
  "calculateSupportResistance risingBars 50 = Some \<lparr>resistance = [], support = []\<rparr>
   \<and> analyzeSupportResistance risingSnapshot 149 = Inl TypeError
   \<and> generatePrediction (Some \<lparr>indicators = risingSnapshot, currentPrice = 149\<rparr>)
       = Inl TypeError"
proof -
  have sr: "supportResistance risingSnapshot = Some \<lparr>resistance = [], support = []\<rparr>"
    by (simp add: risingSnapshot_def rising_levels)
  have a: "analyzeSupportResistance risingSnapshot 149 = Inl TypeError"
    by (rule empty_levels_throw [OF sr]) simp
  have t: "analyzeTrend risingSnapshot 149 = Inr \<lparr>score = 0, signals = [], strength = 0\<rparr>"
    by (simp add: risingSnapshot_def analyzeTrend_def trendADX_def trendMA_def js_defs
        scoring_defs)
  have m: "analyzeMomentum risingSnapshot = Inr \<lparr>score = 0, signals = [], strength = 0\<rparr>"
    by (simp add: risingSnapshot_def analyzeMomentum_def momentumRSI_def momentumMACD_def
        momentumStochastic_def momentumCCI_def js_defs scoring_defs)
  have v: "analyzeVolatility risingSnapshot
      = Inr \<lparr>score = 0, signals = [], strength = 0, volatilityLevel = ''medium''\<rparr>"
    by (simp add: risingSnapshot_def analyzeVolatility_def volatilityRegime_def
        volatilityBands_def js_defs scoring_defs)
  have vo: "analyzeVolume risingSnapshot = Inr \<lparr>score = 0, signals = [], strength = 0\<rparr>"
    by (simp add: risingSnapshot_def analyzeVolume_def js_defs scoring_defs)
  have "generatePrediction (Some \<lparr>indicators = risingSnapshot, currentPrice = 149\<rparr>)
      = Inl TypeError"
    by (simp add: generatePrediction_def t m v vo a bindE_def)
  with a rising_levels show ?thesis by simp
qed

section \<open>Properties of the indicator library\<close>

lemma foldl_jadd_Num: "foldl jadd (Num a) (map Num xs) = Num (a + sum_list xs)"
  by (induction xs arbitrary: a) (simp_all add: add.assoc)

lemma jsum_Num: "jsum (map Num xs) = Num (sum_list xs)"
  by (simp add: jsum_def foldl_jadd_Num)

lemma calculateSMA_mean:
  assumes "p \<le> length ps" and "0 < p" and "calculateSMA (map Num ps) p = Some r"
    and "j < length r"
  shows "r ! j = Num (sum_list (take p (drop j ps)) / real p)"
proof -
  from assms(1,3)
  have r: "r = map (\<lambda>j. jdiv (jsum (take p (drop j (map Num ps)))) (Num (real p)))
                   [0 ..< length ps + 1 - p]"
    by (simp add: calculateSMA_def)
  with assms(4) have j: "j < length ps + 1 - p" by simp
  have "take p (drop j (map Num ps)) = map Num (take p (drop j ps))"
    by (simp add: take_map drop_map)
  with r j assms(2) show ?thesis by (simp add: jsum_Num)
qed

lemma rsiLoop_length: "length (rsiLoop p g l cs) = length cs"
  by (induction cs arbitrary: g l) (simp_all add: Let_def)

lemma priceChanges_length: "length (priceChanges prices) = length prices - 1"
  by (simp add: priceChanges_def)

lemma calculateRSI_length:
  "n + 1 \<le> length prices \<Longrightarrow>
   \<exists>r. calculateRSI prices n = Some r \<and> length r = length prices - n - 1"
  by (simp add: calculateRSI_def Let_def rsiLoop_length priceChanges_length split: prod.splits)

lemma sma_example:
  "calculateSMA (map Num [10, 12, 14, 16, 18]) 3 = Some [Num 12, Num 14, Num 16]"
  by (simp add: calculateSMA_def jsum_def upt_rec)

lemma rsi_example:
  "calculateRSI (map Num [1, 2, 3, 4, 5]) 2 = Some [Num (10000 / 101), Num (10000 / 101)]"
  by (simp add: calculateRSI_def priceChanges_def rsiSeed_def jsub_def jgt_def Let_def)

lemma calculateSMA_aligned:
  assumes "p \<le> length ps"
  shows "\<exists>r. calculateSMA (map Num ps) p = Some r \<and> length r = length ps - p + 1
           \<and> (0 < p \<longrightarrow> (\<forall>j < length r. r ! j = Num (sum_list (take p (drop j ps)) / real p)))"
proof -
  from assms obtain r where r: "calculateSMA (map Num ps) p = Some r"
    and len: "length r = length ps - p + 1"
    by (simp add: calculateSMA_def)
  have "\<forall>j < length r. r ! j = Num (sum_list (take p (drop j ps)) / real p)" if "0 < p"
    using calculateSMA_mean [OF assms that r] by blast
  with r len show ?thesis by blast
qed

text \<open>\<open>calculateRSI\<close> emits the value of the averages before it folds the current
  change into them, so the last change, and with it the last price, reaches no value.
  \<open>calculateATR\<close>, with the same guard and the same smoothing, emits the seed and then one
  value per later true range.\<close>

lemma rsiLoop_ignores_last_change:
  "rsiLoop p g l (cs @ [c]) = rsiLoop p g l (cs @ [c'])"
  by (induction cs arbitrary: g l) (simp_all add: Let_def)

lemma priceChanges_Cons_snoc:
  "priceChanges (p # qs @ [x]) = priceChanges (p # qs) @ [jsub x (last (p # qs))]"
  by (induction qs arbitrary: p) (simp_all add: priceChanges_def)

lemma priceChanges_snoc:
  "ps \<noteq> [] \<Longrightarrow> priceChanges (ps @ [x]) = priceChanges ps @ [jsub x (last ps)]"
  by (cases ps) (simp_all add: priceChanges_Cons_snoc)

lemma calculateRSI_ignores_last_price:
  "calculateRSI (ps @ [x]) n = calculateRSI (ps @ [y]) n"
proof (cases "ps = []")
  case True
  then show ?thesis by (simp add: calculateRSI_def priceChanges_def rsiSeed_def)
next
  case False
  define cs where "cs = priceChanges ps"
  have lcs: "length cs = length ps - 1" by (simp add: cs_def priceChanges_def)
  have px: "priceChanges (ps @ [x]) = cs @ [jsub x (last ps)]"
    and py: "priceChanges (ps @ [y]) = cs @ [jsub y (last ps)]"
    using False by (simp_all add: priceChanges_snoc cs_def)
  show ?thesis
  proof (cases "n \<le> length cs")
    case True
    then have "take n (cs @ [c]) = take n cs" "drop n (cs @ [c]) = drop n cs @ [c]" for c
      by simp_all
    then show ?thesis
      using rsiLoop_ignores_last_change [of n _ _ "drop n cs" "jsub x (last ps)" "jsub y (last ps)"]
      by (simp add: calculateRSI_def px py Let_def split: prod.splits)
  next
    case False
    then have "drop n (cs @ [c]) = []" for c by simp
    then show ?thesis
      by (simp add: calculateRSI_def px py Let_def split: prod.splits)
  qed
qed

lemma atrLoop_length: "length (atrLoop p a ts) = length ts"
  by (induction ts arbitrary: a) (simp_all add: Let_def)

lemma calculateATR_length:
  "n + 1 \<le> length ohlcData \<Longrightarrow>
   \<exists>r. calculateATR ohlcData n = Some r \<and> length r = length ohlcData - n"
  by (simp add: calculateATR_def trueRanges_def Let_def atrLoop_length)

lemma rsi_five_prices: "calculateRSI (map Num [1, 2, 1, 2, 3]) 2 = Some [Num 50, Num 75]"
  by code_simp

lemma rsi_other_last_price:
  "calculateRSI (map Num [1, 2, 1, 2, - 1000]) 2 = Some [Num 50, Num 75]"
  by code_simp

lemma rsi_shortest_input: "calculateRSI (map Num [1, 2, 1]) 2 = Some []"
  by code_simp

lemma atr_five_bars: "calculateATR (take 5 risingBars) 2 = Some [Num 1, Num 1, Num 1]"
  by code_simp

lemma atr_shortest_input: "calculateATR (take 3 risingBars) 2 = Some [Num 1]"
  by code_simp

text \<open>
  Claim C8. The claim is that each indicator series is aligned to a suffix of its input:
  SMA(p) on \<open>L \<ge> p\<close> prices has \<open>L - p + 1\<close> values, the means of its windows, and RSI(n)
  on \<open>L \<ge> n + 1\<close> prices has \<open>L - n + 1\<close> values. SMA does so: prices 10, 12, 14, 16, 18
  with period 3 give 12, 14, 16. RSI with \<open>n = 2\<close> returns the two values 50 and 75 on the
  prices 1, 2, 1, 2, 3, the same two values when the last price is -1000, and no value on
  the prices 1, 2, 1, the shortest series its guard admits: its series ends one price
  before the end of the input. ATR with period 2 returns three values on five bars and
  one on three.
\<close>

theorem rsi_stops_before_last_price:
  "calculateSMA (map Num [10, 12, 14, 16, 18]) 3 = Some [Num 12, Num 14, Num 16]
   \<and> calculateRSI (map Num [1, 2, 1, 2, 3]) 2 = Some [Num 50, Num 75]
   \<and> calculateRSI (map Num [1, 2, 1, 2, - 1000]) 2 = Some [Num 50, Num 75]
   \<and> calculateRSI (map Num [1, 2, 1]) 2 = Some []
   \<and> calculateATR (take 5 risingBars) 2 = Some [Num 1, Num 1, Num 1]
   \<and> calculateATR (take 3 risingBars) 2 = Some [Num 1]"
  using sma_example rsi_five_prices rsi_other_last_price rsi_shortest_input atr_five_bars
    atr_shortest_input
  by (intro conjI)

lemma emaLoop_length: "length (emaLoop k prev ps) = length ps"
  by (induction ps arbitrary: prev) (simp_all add: Let_def)

lemma calculateEMA_full:
  assumes "prices \<noteq> []" and "period \<le> length prices"
  shows "\<exists>e. calculateEMA prices period = Some e \<and> length e = length prices
           \<and> e ! 0 = prices ! 0"
  using assms by (cases prices) (simp_all add: calculateEMA_def Let_def emaLoop_length jsnth_def)

lemma calculateMACD_full:
  assumes ne: "prices \<noteq> []" and f: "fast \<le> length prices" and s: "slow \<le> length prices"
    and g: "sig \<le> length prices"
  shows "\<exists>r sl. calculateMACD prices fast slow sig = Some r
           \<and> length (macd_line r) = length prices
           \<and> signal_line r = Some sl \<and> length sl = length prices
           \<and> length (histogram r) = length prices
           \<and> macdOffset (macd_line r) sl = 0
           \<and> (\<forall>i < length prices. histogram r ! i = jsub (macd_line r ! i) (sl ! i))"
proof -
  obtain fe where fe: "calculateEMA prices fast = Some fe" "length fe = length prices"
    using calculateEMA_full [OF ne f] by blast
  obtain se where se: "calculateEMA prices slow = Some se" "length se = length prices"
    using calculateEMA_full [OF ne s] by blast
  define ml where "ml = map (\<lambda>i. jsub (jsnth fe (int i)) (jsnth se (int i))) [0 ..< length fe]"
  have mlen: "length ml = length prices" by (simp add: ml_def fe(2))
  with ne have mne: "ml \<noteq> []" by auto
  from g mlen have g': "sig \<le> length ml" by simp
  obtain sl where sl: "calculateEMA ml sig = Some sl" "length sl = length ml"
    using calculateEMA_full [OF mne g'] by blast
  have off: "macdOffset ml sl = 0" by (simp add: macdOffset_def sl(2))
  define h where "h = map (\<lambda>i. jsub (jsnth ml (int i + macdOffset ml sl)) (jsnth sl (int i)))
                               [0 ..< length sl]"
  have r: "calculateMACD prices fast slow sig
      = Some \<lparr>macd_line = ml, signal_line = Some sl, histogram = h\<rparr>"
    by (simp add: calculateMACD_def fe(1) se(1) Let_def ml_def[symmetric] sl(1) h_def)
  have hi: "h ! i = jsub (ml ! i) (sl ! i)" if "i < length prices" for i
    using that by (simp add: h_def off sl(2) mlen jsnth_def)
  show ?thesis
    using r mlen sl(2) off hi by (simp add: h_def)
qed

text \<open>
  Claim C10. For every non-empty price series at least as long as the period,
  \<open>calculateEMA\<close> returns a series of the length of its input whose first value is the
  first input; so, when the series is at least as long as the fast, slow and signal
  periods, the MACD line, the signal line and the histogram have the length of the input,
  the histogram's offset into the MACD line is 0, and its value at every index is the
  difference of the two lines at that index.
\<close>

theorem ema_macd_full_length:
  "(prices \<noteq> [] \<and> period \<le> length prices \<longrightarrow>
      (\<exists>e. calculateEMA prices period = Some e \<and> length e = length prices
         \<and> e ! 0 = prices ! 0))
   \<and> (prices \<noteq> [] \<and> fast \<le> length prices \<and> slow \<le> length prices \<and> sig \<le> length prices \<longrightarrow>
        (\<exists>r sl. calculateMACD prices fast slow sig = Some r
           \<and> length (macd_line r) = length prices
           \<and> signal_line r = Some sl \<and> length sl = length prices
           \<and> length (histogram r) = length prices
           \<and> macdOffset (macd_line r) sl = 0
           \<and> (\<forall>i < length prices. histogram r ! i = jsub (macd_line r ! i) (sl ! i))))"
  using calculateEMA_full [of prices period] calculateMACD_full [of prices fast slow sig]
  by blast

lemma macd_example:
  "calculateMACD (map Num [1, 2, 4]) 1 3 2
     = Some \<lparr>macd_line = [Num 0, Num (1 / 2), Num (5 / 4)],
             signal_line = Some [Num 0, Num (1 / 3), Num (17 / 18)],
             histogram = [Num 0, Num (1 / 6), Num (11 / 36)]\<rparr>"
  by code_simp

theorem ema_macd_full_length_witness:
  "map Num [1, 2, 4] \<noteq> [] \<and> 3 \<le> length (map Num [1, 2, 4])
   \<and> (\<exists>e. calculateEMA (map Num [1, 2, 4]) 3 = Some e \<and> length e = 3 \<and> e ! 0 = Num 1)
   \<and> (\<exists>r sl. calculateMACD (map Num [1, 2, 4]) 1 3 2 = Some r
         \<and> length (macd_line r) = 3 \<and> signal_line r = Some sl \<and> length sl = 3
         \<and> length (histogram r) = 3 \<and> macdOffset (macd_line r) sl = 0
         \<and> histogram r ! 2 = jsub (macd_line r ! 2) (sl ! 2))"
  using ema_macd_full_length [of "map Num [1, 2, 4]" 3 1 3 2]
  by (simp add: numeral_2_eq_2 numeral_3_eq_3) blast

text \<open>On finite prices and a positive period the RSI values are finite and lie in
  \<open>[0, 100]\<close>: the guard \<open>avgLoss === 0\<close> covers the only zero divisor.\<close>

lemma priceChanges_Num:
  "priceChanges (map Num ps) = map Num (map (\<lambda>(a, b). b - a) (zip ps (tl ps)))"
  by (simp add: priceChanges_def jsub_def zip_map_map map_tl [symmetric] split_def
      del: map_tl)

lemma rsiSeed_step:
  "0 \<le> g \<Longrightarrow> 0 \<le> l \<Longrightarrow>
   \<exists>g' l'. foldl (\<lambda>(avgGain, avgLoss) c.
              if jgt c (Num 0) then (jadd avgGain c, avgLoss)
              else (avgGain, jadd avgLoss (jabs c)))
           (Num g, Num l) (map Num cs) = (Num g', Num l') \<and> 0 \<le> g' \<and> 0 \<le> l'"
proof (induction cs arbitrary: g l)
  case Nil
  then show ?case by simp
next
  case (Cons c cs)
  show ?case
  proof (cases "0 < c")
    case True
    with Cons.prems have "0 \<le> g + c" by simp
    from Cons.IH [OF this Cons.prems(2)] True show ?thesis by (simp add: jgt_def)
  next
    case False
    from Cons.prems have "0 \<le> l + \<bar>c\<bar>" by simp
    from Cons.IH [OF Cons.prems(1) this] False show ?thesis by (simp add: jgt_def)
  qed
qed

lemma rsiSeed_finite:
  "\<exists>g l. rsiSeed (map Num cs) = (Num g, Num l) \<and> 0 \<le> g \<and> 0 \<le> l"
  unfolding rsiSeed_def using rsiSeed_step [of 0 0 cs] by simp

lemma rsi_value_bounds:
  assumes "0 \<le> a" and "0 \<le> b"
  shows "\<exists>v. jsub (Num 100) (jdiv (Num 100)
              (jadd (Num 1) (if Num b = Num 0 then Num 100 else jdiv (Num a) (Num b)))) = Num v
           \<and> 0 \<le> v \<and> v \<le> 100"
proof (cases "b = 0")
  case True
  then show ?thesis by (intro exI [of _ "100 - 100 / 101"]) (simp add: jsub_def)
next
  case False
  with assms have "0 \<le> a / b" by simp
  then have pos: "1 \<le> 1 + a / b" by simp
  then have "100 / (1 + a / b) \<le> 100" "0 \<le> 100 / (1 + a / b)"
    by (simp_all add: divide_le_eq)
  with False pos show ?thesis by (simp add: jsub_def)
qed

lemma rsiLoop_bounded:
  assumes "0 < p" and "0 \<le> a" and "0 \<le> b"
  shows "\<forall>x \<in> set (rsiLoop p (Num a) (Num b) (map Num cs)). \<exists>v. x = Num v \<and> 0 \<le> v \<and> v \<le> 100"
  using assms(2,3)
proof (induction cs arbitrary: a b)
  case Nil
  then show ?case by simp
next
  case (Cons c cs)
  define gain where "gain = (if 0 < c then c else 0)"
  define loss where "loss = (if c < 0 then \<bar>c\<bar> else 0)"
  define a' where "a' = (a * (real p - 1) + gain) / real p"
  define b' where "b' = (b * (real p - 1) + loss) / real p"
  from assms(1) have p1: "0 \<le> real p - 1" by simp
  have "0 \<le> gain" "0 \<le> loss" by (simp_all add: gain_def loss_def)
  with Cons.prems p1 have nn: "0 \<le> a'" "0 \<le> b'"
    by (simp_all add: a'_def b'_def)
  have step: "rsiLoop p (Num a) (Num b) (map Num (c # cs))
      = jsub (Num 100) (jdiv (Num 100)
              (jadd (Num 1) (if Num b = Num 0 then Num 100 else jdiv (Num a) (Num b))))
        # rsiLoop p (Num a') (Num b') (map Num cs)"
    using assms(1) by (simp add: Let_def a'_def b'_def gain_def loss_def jgt_def abs_if)
  from Cons.IH [OF nn] rsi_value_bounds [OF Cons.prems] show ?case
    unfolding step by simp
qed

lemma calculateRSI_bounded:
  assumes "0 < n" and "calculateRSI (map Num ps) n = Some r"
  shows "\<forall>x \<in> set r. \<exists>v. x = Num v \<and> 0 \<le> v \<and> v \<le> 100"
proof -
  define cs where "cs = map (\<lambda>(a, b). b - a) (zip ps (tl ps))"
  have pc: "priceChanges (map Num ps) = map Num cs" by (simp add: priceChanges_Num cs_def)
  obtain g l where seed: "rsiSeed (map Num (take n cs)) = (Num g, Num l)" "0 \<le> g" "0 \<le> l"
    using rsiSeed_finite [of "take n cs"] by blast
  from assms(1) seed have nn: "0 \<le> g / real n" "0 \<le> l / real n" by simp_all
  from assms have "r = rsiLoop n (Num (g / real n)) (Num (l / real n)) (map Num (drop n cs))"
    by (simp add: calculateRSI_def pc Let_def take_map drop_map seed(1) split: if_splits)
  with rsiLoop_bounded [OF assms(1) nn] show ?thesis by simp
qed

lemma flat_cci: "calculateCCI (flatBars 20) 20 = Some [NaN]"
  by code_simp

lemma flat_stochastic:
  "calculateStochastic (flatBars 18) 14 3 3
     = Inr (Some \<lparr>stoch_k = Some [NaN, NaN, NaN], stoch_d = Some [NaN]\<rparr>)"
  by code_simp

text \<open>
  Claim C4. The claim is that the division-by-zero paths of RSI, CCI and the Stochastic
  are guarded and never put \<open>NaN\<close> or \<open>Infinity\<close> into a returned series. On bars of a
  constant price the mean deviation of CCI and the range of the Stochastic are 0, and both
  return series of \<open>NaN\<close>; RSI with no loss takes the guarded branch and stays finite.
\<close>

theorem flat_series_not_guarded:
  "calculateCCI (flatBars 20) 20 = Some [NaN]
   \<and> calculateStochastic (flatBars 18) 14 3 3
       = Inr (Some \<lparr>stoch_k = Some [NaN, NaN, NaN], stoch_d = Some [NaN]\<rparr>)
   \<and> calculateRSI (map Num [1, 2, 3, 4, 5]) 2 = Some [Num (10000 / 101), Num (10000 / 101)]"
  using flat_cci flat_stochastic rsi_example by simp

section \<open>Properties of the support and resistance levels\<close>

lemma sum_list_lower: "\<forall>x\<in>set xs. lo \<le> x \<Longrightarrow> lo * real (length xs) \<le> sum_list xs"
  by (induction xs) (simp_all add: algebra_simps)

lemma sum_list_upper: "\<forall>x\<in>set xs. x \<le> hi \<Longrightarrow> sum_list xs \<le> hi * real (length xs)"
  by (induction xs) (simp_all add: algebra_simps)

lemma average_lower: "xs \<noteq> [] \<Longrightarrow> \<forall>x\<in>set xs. lo \<le> x \<Longrightarrow> lo \<le> average xs"
  using sum_list_lower [of xs lo] by (simp add: average_def le_divide_eq)

lemma average_upper: "xs \<noteq> [] \<Longrightarrow> \<forall>x\<in>set xs. x \<le> hi \<Longrightarrow> average xs \<le> hi"
  using sum_list_upper [of xs hi] by (simp add: average_def divide_le_eq)

text \<open>The cluster averages come out in ascending order, none below the first level of the
  open cluster.\<close>

lemma clusterLoop_sorted:
  assumes "cur \<noteq> []" and "sorted (cur @ xs)"
  shows "sorted (clusterLoop cur prev xs) \<and> (\<forall>y\<in>set (clusterLoop cur prev xs). hd cur \<le> y)"
  using assms
proof (induction xs arbitrary: cur prev)
  case Nil
  then have "\<forall>c\<in>set cur. hd cur \<le> c" by (cases cur) auto
  with Nil show ?case by (simp add: average_lower)
next
  case (Cons x xs)
  show ?case
  proof (cases "within2pct prev x")
    case True
    from Cons.prems have "cur @ [x] \<noteq> []" "sorted ((cur @ [x]) @ xs)" by simp_all
    from Cons.IH [OF this, of x] Cons.prems(1) True show ?thesis by simp
  next
    case False
    from Cons.prems have sx: "sorted ([x] @ xs)" by (simp add: sorted_append)
    have ih: "sorted (clusterLoop [x] x xs) \<and> (\<forall>y\<in>set (clusterLoop [x] x xs). x \<le> y)"
      using Cons.IH [of "[x]" x] sx by simp
    from Cons.prems have le: "\<forall>c\<in>set cur. c \<le> x" by (auto simp: sorted_append)
    then have ax: "average cur \<le> x" using Cons.prems(1) by (simp add: average_upper)
    from Cons.prems have "\<forall>c\<in>set cur. hd cur \<le> c" by (cases cur) (auto simp: sorted_append)
    then have ha: "hd cur \<le> average cur" using Cons.prems(1) by (simp add: average_lower)
    from ih ax ha False show ?thesis by fastforce
  qed
qed

lemma clusterLevels_sorted: "sorted (clusterLevels levels)"
proof (cases "sort levels")
  case Nil
  then show ?thesis by (simp add: clusterLevels_def)
next
  case (Cons s ss)
  have "sorted (sort levels)" by simp
  with Cons have "sorted ([s] @ ss)" by simp
  from clusterLoop_sorted [OF _ this, of s] Cons show ?thesis
    by (simp add: clusterLevels_def)
qed

lemma sorted_split:
  assumes "sorted (xs :: real list)"
  shows "\<forall>s\<in>set (take n xs). \<forall>d\<in>set (drop n xs). s \<le> d"
proof -
  from assms have "sorted (take n xs @ drop n xs)" by simp
  then show ?thesis by (simp only: sorted_append) blast
qed

lemma sorted_lowest:
  assumes "sorted (xs :: real list)" and "c \<in> set xs"
  shows "c \<in> set (take n xs) \<or> (\<forall>s\<in>set (take n xs). s \<le> c)"
proof -
  from assms(2) have "c \<in> set (take n xs) \<or> c \<in> set (drop n xs)"
    by (metis Un_iff append_take_drop_id set_append)
  with sorted_split [OF assms(1), of n] show ?thesis by blast
qed

lemma sorted_highest:
  assumes "sorted (xs :: real list)" and "c \<in> set xs"
  shows "c \<in> set (drop n xs) \<or> (\<forall>s\<in>set (drop n xs). c \<le> s)"
proof -
  from assms(2) have "c \<in> set (take n xs) \<or> c \<in> set (drop n xs)"
    by (metis Un_iff append_take_drop_id set_append)
  with sorted_split [OF assms(1), of n] show ?thesis by blast
qed

text \<open>The clusters are the averages of the maximal runs of the sorted levels in which each
  level is within 2\% of the one before it.\<close>

lemma clusterLoop_runs:
  assumes "cur \<noteq> []" and "successively within2pct cur" and "prev = last cur"
  shows "\<exists>runs. runs \<noteq> [] \<and> concat runs = cur @ xs \<and> [] \<notin> set runs
           \<and> clusterLoop cur prev xs = map average runs
           \<and> (\<forall>r \<in> set runs. successively within2pct r)
           \<and> successively (\<lambda>r s. \<not> within2pct (last r) (hd s)) runs
           \<and> (\<exists>t. hd runs = cur @ t)"
  using assms
proof (induction xs arbitrary: cur prev)
  case Nil
  have "[cur] \<noteq> [] \<and> concat [cur] = cur @ [] \<and> [] \<notin> set [cur]
      \<and> clusterLoop cur prev [] = map average [cur]
      \<and> (\<forall>r \<in> set [cur]. successively within2pct r)
      \<and> successively (\<lambda>r s. \<not> within2pct (last r) (hd s)) [cur]
      \<and> (\<exists>t. hd [cur] = cur @ t)"
    using Nil by simp
  then show ?case by blast
next
  case (Cons x xs)
  show ?case
  proof (cases "within2pct prev x")
    case True
    have 1: "cur @ [x] \<noteq> []" by simp
    have 2: "successively within2pct (cur @ [x])"
      using Cons.prems True by (simp add: successively_append_iff)
    have 3: "x = last (cur @ [x])" by simp
    from Cons.IH [OF 1 2 3] obtain runs t where
      r: "runs \<noteq> []" "concat runs = (cur @ [x]) @ xs" "[] \<notin> set runs"
        "clusterLoop (cur @ [x]) x xs = map average runs"
        "\<forall>r \<in> set runs. successively within2pct r"
        "successively (\<lambda>r s. \<not> within2pct (last r) (hd s)) runs"
        "hd runs = (cur @ [x]) @ t"
      by blast
    have "hd runs = cur @ (x # t)" using r(7) by simp
    with r True show ?thesis by (intro exI [of _ runs]) auto
  next
    case False
    have 1: "[x] \<noteq> []" by simp
    have 2: "successively within2pct [x]" by simp
    have 3: "x = last [x]" by simp
    from Cons.IH [OF 1 2 3] obtain runs t where
      r: "runs \<noteq> []" "concat runs = [x] @ xs" "[] \<notin> set runs"
        "clusterLoop [x] x xs = map average runs"
        "\<forall>r \<in> set runs. successively within2pct r"
        "successively (\<lambda>r s. \<not> within2pct (last r) (hd s)) runs"
        "hd runs = [x] @ t"
      by blast
    have b: "\<not> within2pct (last cur) (hd (hd runs))"
      using False Cons.prems(3) r(7) by simp
    have "cur # runs \<noteq> [] \<and> concat (cur # runs) = cur @ x # xs \<and> [] \<notin> set (cur # runs)
        \<and> clusterLoop cur prev (x # xs) = map average (cur # runs)
        \<and> (\<forall>r \<in> set (cur # runs). successively within2pct r)
        \<and> successively (\<lambda>r s. \<not> within2pct (last r) (hd s)) (cur # runs)
        \<and> (\<exists>t. hd (cur # runs) = cur @ t)"
      using r b False Cons.prems(1,2) by (simp add: successively_Cons)
    then show ?thesis by blast
  qed
qed

lemma clusterLevels_runs:
  "\<exists>runs. concat runs = sort levels \<and> [] \<notin> set runs
     \<and> clusterLevels levels = map average runs
     \<and> (\<forall>r \<in> set runs. successively within2pct r)
     \<and> successively (\<lambda>r s. \<not> within2pct (last r) (hd s)) runs"
proof (cases "sort levels")
  case Nil
  then have "concat [] = sort levels \<and> [] \<notin> set ([] :: real list list)
     \<and> clusterLevels levels = map average []
     \<and> (\<forall>r \<in> set ([] :: real list list). successively within2pct r)
     \<and> successively (\<lambda>r s. \<not> within2pct (last r) (hd s)) ([] :: real list list)"
    by (simp add: clusterLevels_def)
  then show ?thesis by blast
next
  case (Cons s ss)
  have "[s] \<noteq> []" "successively within2pct [s]" "s = last [s]" by simp_all
  from clusterLoop_runs [OF this, of ss] Cons show ?thesis
    by (auto simp: clusterLevels_def)
qed

lemma within2pct_sorted:
  "a \<le> b \<Longrightarrow> within2pct a b \<longleftrightarrow> a \<noteq> 0 \<and> (b - a) / a < 0.02"
  by (simp add: within2pct_def inf_signed_def)

lemma cluster_pair:
  assumes "a \<le> b"
  shows "clusterLevels [a, b] = (if within2pct a b then [(a + b) / 2] else [a, b])"
    and "clusterLevels [b, a] = clusterLevels [a, b]"
  using assms by (auto simp: clusterLevels_def average_def)

lemma dip_levels:
  "calculateSupportResistance dipBars 14 = Some \<lparr>resistance = [], support = [10, 20, 30]\<rparr>"
  by code_simp

lemma dip_clusters: "clusterLevels (supportLevels (sliceLast 14 dipBars)) = [10, 20, 30, 40]"
  by code_simp

lemma dip_close: "close (last dipBars) = 100"
  by code_simp

lemma chain_example: "clusterLevels [100, 101.5, 103] = [101.5]"
  by code_simp

lemma run_example: "clusterLevels [100, 100.5, 102.5] = [101]"
  by code_simp

text \<open>
  Claim C9, as stated, has the computation return the three support clusters nearest to
  the price. On \<open>dipBars\<close>, which close at 100, the support clusters are 10, 20, 30 and
  40; the code returns 10, 20 and 30 and leaves out 40, the cluster nearest to the price.
\<close>

theorem support_not_nearest_counterexample:
  "calculateSupportResistance dipBars 14 = Some \<lparr>resistance = [], support = [10, 20, 30]\<rparr>
   \<and> clusterLevels (supportLevels (sliceLast 14 dipBars)) = [10, 20, 30, 40]
   \<and> close (last dipBars) = 100
   \<and> \<bar>40 - close (last dipBars)\<bar> < \<bar>30 - close (last dipBars)\<bar>
   \<and> 40 \<notin> set [10, 20, 30 :: real]"
  using dip_levels dip_clusters dip_close by simp

text \<open>
  Claim C9, amended. The support/resistance computation sorts the raw extrema levels and
  clusters them along the sorted order, a level joining the cluster of the previous
  sorted level when its distance to that level, relative to that level, is below 2\%:
  the clusters are the maximal runs of such levels, and each is replaced by the average of
  its levels (two raw levels within 2\% of each other merge into one averaged level; two
  levels further apart remain distinct; the levels 100, 101.5, 103 chain into the one
  cluster 101.5, and 100, 100.5, 102.5 into their mean 101). The cluster levels are
  ascending, and the computation returns up to 3 support clusters, the lowest ones, and
  up to 3 resistance clusters, the highest ones.
\<close>

theorem clustered_extreme_levels:
  "(\<exists>runs. concat runs = sort levels \<and> [] \<notin> set runs
      \<and> clusterLevels levels = map average runs
      \<and> (\<forall>r \<in> set runs. successively within2pct r)
      \<and> successively (\<lambda>r s. \<not> within2pct (last r) (hd s)) runs)
   \<and> (a \<le> b \<longrightarrow>
        (within2pct a b \<longleftrightarrow> a \<noteq> 0 \<and> (b - a) / a < 0.02)
        \<and> clusterLevels [a, b] = (if within2pct a b then [(a + b) / 2] else [a, b])
        \<and> clusterLevels [b, a] = clusterLevels [a, b])
   \<and> clusterLevels [100, 101.5, 103] = [101.5]
   \<and> clusterLevels [100, 100.5, 102.5] = [101]
   \<and> sorted (clusterLevels levels)
   \<and> (lookback \<le> length ohlcData \<longrightarrow>
        (\<exists>r. calculateSupportResistance ohlcData lookback = Some r
           \<and> support r = take 3 (clusterLevels (supportLevels (sliceLast lookback ohlcData)))
           \<and> resistance r
               = drop (length (clusterLevels (resistanceLevels (sliceLast lookback ohlcData))) - 3)
                   (clusterLevels (resistanceLevels (sliceLast lookback ohlcData)))
           \<and> length (support r) \<le> 3 \<and> length (resistance r) \<le> 3
           \<and> (\<forall>c \<in> set (clusterLevels (supportLevels (sliceLast lookback ohlcData))).
                 c \<in> set (support r) \<or> (\<forall>s \<in> set (support r). s \<le> c))
           \<and> (\<forall>c \<in> set (clusterLevels (resistanceLevels (sliceLast lookback ohlcData))).
                 c \<in> set (resistance r) \<or> (\<forall>s \<in> set (resistance r). c \<le> s))))"
proof (intro conjI)
  show "\<exists>runs. concat runs = sort levels \<and> [] \<notin> set runs
      \<and> clusterLevels levels = map average runs
      \<and> (\<forall>r \<in> set runs. successively within2pct r)
      \<and> successively (\<lambda>r s. \<not> within2pct (last r) (hd s)) runs"
    by (rule clusterLevels_runs)
next
  show "a \<le> b \<longrightarrow>
        (within2pct a b \<longleftrightarrow> a \<noteq> 0 \<and> (b - a) / a < 0.02)
        \<and> clusterLevels [a, b] = (if within2pct a b then [(a + b) / 2] else [a, b])
        \<and> clusterLevels [b, a] = clusterLevels [a, b]"
    using within2pct_sorted [of a b] cluster_pair [of a b] by blast
next
  show "clusterLevels [100, 101.5, 103] = [101.5]" by (rule chain_example)
next
  show "clusterLevels [100, 100.5, 102.5] = [101]" by (rule run_example)
next
  show "sorted (clusterLevels levels)" by (rule clusterLevels_sorted)
next
  define sc where "sc = clusterLevels (supportLevels (sliceLast lookback ohlcData))"
  define rc where "rc = clusterLevels (resistanceLevels (sliceLast lookback ohlcData))"
  have r: "calculateSupportResistance ohlcData lookback
      = Some \<lparr>resistance = drop (length rc - 3) rc, support = take 3 sc\<rparr>"
    if "lookback \<le> length ohlcData"
    using that by (simp add: calculateSupportResistance_def Let_def sc_def rc_def)
  have ss: "sorted sc" and sr: "sorted rc"
    by (simp_all add: sc_def rc_def clusterLevels_sorted)
  have lo: "\<forall>c \<in> set sc. c \<in> set (take 3 sc) \<or> (\<forall>s \<in> set (take 3 sc). s \<le> c)"
    using sorted_lowest [OF ss] by blast
  have hi: "\<forall>c \<in> set rc. c \<in> set (drop (length rc - 3) rc)
      \<or> (\<forall>s \<in> set (drop (length rc - 3) rc). c \<le> s)"
    using sorted_highest [OF sr] by blast
  show "lookback \<le> length ohlcData \<longrightarrow>
        (\<exists>r. calculateSupportResistance ohlcData lookback = Some r
           \<and> support r = take 3 (clusterLevels (supportLevels (sliceLast lookback ohlcData)))
           \<and> resistance r
               = drop (length (clusterLevels (resistanceLevels (sliceLast lookback ohlcData))) - 3)
                   (clusterLevels (resistanceLevels (sliceLast lookback ohlcData)))
           \<and> length (support r) \<le> 3 \<and> length (resistance r) \<le> 3
           \<and> (\<forall>c \<in> set (clusterLevels (supportLevels (sliceLast lookback ohlcData))).
                 c \<in> set (support r) \<or> (\<forall>s \<in> set (support r). s \<le> c))
           \<and> (\<forall>c \<in> set (clusterLevels (resistanceLevels (sliceLast lookback ohlcData))).
                 c \<in> set (resistance r) \<or> (\<forall>s \<in> set (resistance r). c \<le> s)))"
    unfolding sc_def [symmetric] rc_def [symmetric]
    using r lo hi by simp arith
qed

theorem clustered_extreme_levels_witness:
  "(100::real) \<le> 101 \<and> 14 \<le> length dipBars
   \<and> clusterLevels [100, 101] = [100.5] \<and> clusterLevels [101, 100] = [100.5]
   \<and> (\<exists>runs. concat runs = sort [102, 100, 110, 100.5] \<and> [] \<notin> set runs
         \<and> clusterLevels [102, 100, 110, 100.5] = map average runs
         \<and> (\<forall>r \<in> set runs. successively within2pct r)
         \<and> successively (\<lambda>r s. \<not> within2pct (last r) (hd s)) runs)
   \<and> (\<exists>r. calculateSupportResistance dipBars 14 = Some r
         \<and> support r = [10, 20, 30]
         \<and> (\<forall>c \<in> set [10, 20, 30, 40]. c \<in> set (support r) \<or> (\<forall>s \<in> set (support r). s \<le> c)))"
proof -
  have len: "14 \<le> length dipBars" by (simp add: dipBars_def)
  have ab: "(100::real) \<le> 101" by simp
  note inst = clustered_extreme_levels
    [where levels = "[102, 100, 110, 100.5]" and a = 100 and b = 101 and lookback = 14
       and ohlcData = dipBars]
  from inst have runs: "\<exists>runs. concat runs = sort [102, 100, 110, 100.5] \<and> [] \<notin> set runs
         \<and> clusterLevels [102, 100, 110, 100.5] = map average runs
         \<and> (\<forall>r \<in> set runs. successively within2pct r)
         \<and> successively (\<lambda>r s. \<not> within2pct (last r) (hd s)) runs"
    by blast
  from inst ab have "within2pct 100 101"
    and pair: "clusterLevels [100, 101] = (if within2pct 100 101 then [(100 + 101) / 2] else [100, 101])"
      "clusterLevels [101, 100] = clusterLevels [100, 101]"
    by simp_all
  then have two: "clusterLevels [100, 101] = [100.5] \<and> clusterLevels [101, 100] = [100.5]"
    by simp
  from inst len
  have ex: "\<exists>r. calculateSupportResistance dipBars 14 = Some r
         \<and> support r = take 3 (clusterLevels (supportLevels (sliceLast 14 dipBars)))
         \<and> (\<forall>c \<in> set (clusterLevels (supportLevels (sliceLast 14 dipBars))).
               c \<in> set (support r) \<or> (\<forall>s \<in> set (support r). s \<le> c))"
    by auto
  then have "\<exists>r. calculateSupportResistance dipBars 14 = Some r
         \<and> support r = [10, 20, 30]
         \<and> (\<forall>c \<in> set [10, 20, 30, 40]. c \<in> set (support r) \<or> (\<forall>s \<in> set (support r). s \<le> c))"
    unfolding dip_clusters by simp
  with two runs ab len show ?thesis by blast
qed

section \<open>Properties of the accuracy evaluation\<close>

text \<open>What the sweep selects: the unevaluated predictions of a known asset whose
  \<open>created_at\<close> plus a thousand times the stored time frame has passed.\<close>

lemma pending_selection:
  "(p, cp) \<in> set (pendingPredictions db now) \<longleftrightarrow>
     p \<in> set (predictions db) \<and> p_evaluated_at p = None
     \<and> p_created_at p + p_timeframe p * 1000 \<le> now
     \<and> (\<exists>c \<in> set (cryptocurrencies db). c_id c = p_crypto_id p \<and> c_current_price c = cp)"
  by (auto simp: pendingPredictions_def)

text \<open>For a pending row, whose \<open>actual_price\<close> is still \<open>NULL\<close>, the direction compares 0
  with the reference price, whatever the current price is.\<close>

lemma direction_of_pending:
  "p_actual_price pred = None \<Longrightarrow>
   actualDirectionOf pred originalPrice
     = (if originalPrice < 0 then ''up'' else if 0 < originalPrice then ''down'' else ''neutral'')"
  by (simp add: actualDirectionOf_def nullToNumber_def)

lemma pending_never_accurate_in_positive_range:
  "p_actual_price pred = None \<Longrightarrow> p_predicted_price_range_low pred = Some lo \<Longrightarrow> 0 < lo \<Longrightarrow>
   \<not> wasAccurateOf pred d"
  by (simp add: wasAccurateOf_def nullToNumber_def)

lemma tracked_rows:
  "map (\<lambda>p. (p_prediction_type p, p_created_at p, p_timeframe p, p_evaluated_at p))
       (predictions trackedDb)
     = [(''short_term'', 0, 86400000, None), (''medium_term'', 0, 604800000, None)]"
  by code_simp

lemma tracked_after_a_day: "snd (evaluatePredictions trackedDb 86400000) = 0"
  by code_simp

lemma tracked_after_a_week: "snd (evaluatePredictions trackedDb 604800000) = 0"
  by code_simp

lemma tracked_before_thousand_days: "snd (evaluatePredictions trackedDb 86399999999) = 0"
  by code_simp

lemma tracked_after_thousand_days: "snd (evaluatePredictions trackedDb 86400000000) = 1"
  by code_simp

text \<open>
  Claim C2. The claim is that the sweep at time \<open>now\<close> selects exactly the unevaluated
  predictions with \<open>createdAt + horizon \<le> now\<close>, the horizon being 86,400,000 ms and
  604,800,000 ms. The two predictions tracked at time 0 store these horizons, but the
  sweep selects none of them after one day or after one week: the short-term one is
  selected only from time 86,400,000,000 on.
\<close>

theorem sweep_waits_thousandfold:
  "map (\<lambda>p. (p_prediction_type p, p_created_at p, p_timeframe p, p_evaluated_at p))
       (predictions trackedDb)
     = [(''short_term'', 0, 86400000, None), (''medium_term'', 0, 604800000, None)]
   \<and> snd (evaluatePredictions trackedDb 86400000) = 0
   \<and> snd (evaluatePredictions trackedDb 604800000) = 0
   \<and> snd (evaluatePredictions trackedDb 86399999999) = 0
   \<and> snd (evaluatePredictions trackedDb 86400000000) = 1"
  using tracked_rows tracked_after_a_day tracked_after_a_week tracked_before_thousand_days
    tracked_after_thousand_days
  by simp

lemma vector_rows:
  "predictions (fst (evaluatePredictions vectorDb 86400000000))
     = [upRow\<lparr>p_actual_direction := Some ''down'', p_actual_price := Some 100,
              p_was_accurate := Some 0, p_evaluated_at := Some 86400000000\<rparr>]"
  by code_simp

lemma vector_accuracy:
  "getHistoricalAccuracy (fst (evaluatePredictions vectorDb 86400000000))
     = \<lparr>total_predictions = 1, accurate_predictions = Some 0, accuracy_percentage = Some 0\<rparr>"
  by code_simp

lemma accurate_row_accuracy:
  "getHistoricalAccuracy
     (marketDb\<lparr>predictions := [upRow\<lparr>p_actual_direction := Some ''up'',
        p_actual_price := Some 100, p_was_accurate := Some 1, p_evaluated_at := Some 1\<rparr>]\<rparr>)
     = \<lparr>total_predictions = 1, accurate_predictions = Some 1, accuracy_percentage = Some 100\<rparr>"
  by code_simp

text \<open>
  Claim C1. The claim is that the evaluation compares the asset's most recent price with
  the reference price and marks the prediction accurate when the direction matches and
  that price lies in the predicted range. For the pending prediction of direction \<open>up\<close>
  and range \<open>[95, 105]\<close>, with reference price 90 and most recent price 100, the code
  records direction \<open>down\<close> and \<open>was_accurate = 0\<close>, and the aggregate reports 0 percent;
  the aggregate of a single row marked accurate is 100.
\<close>

theorem evaluation_reads_unset_price:
  "originalPriceOf (price_history vectorDb) ''bitcoin'' 0 = Some 90
   \<and> pendingPredictions vectorDb 86400000000 = [(upRow, Some 100)]
   \<and> predictions (fst (evaluatePredictions vectorDb 86400000000))
       = [upRow\<lparr>p_actual_direction := Some ''down'', p_actual_price := Some 100,
                p_was_accurate := Some 0, p_evaluated_at := Some 86400000000\<rparr>]
   \<and> getHistoricalAccuracy (fst (evaluatePredictions vectorDb 86400000000))
       = \<lparr>total_predictions = 1, accurate_predictions = Some 0, accuracy_percentage = Some 0\<rparr>
   \<and> getHistoricalAccuracy
       (marketDb\<lparr>predictions := [upRow\<lparr>p_actual_direction := Some ''up'',
          p_actual_price := Some 100, p_was_accurate := Some 1, p_evaluated_at := Some 1\<rparr>]\<rparr>)
       = \<lparr>total_predictions = 1, accurate_predictions = Some 1, accuracy_percentage = Some 100\<rparr>"
proof -
  have a: "originalPriceOf (price_history vectorDb) ''bitcoin'' 0 = Some 90"
    by code_simp
  have b: "pendingPredictions vectorDb 86400000000 = [(upRow, Some 100)]"
    by code_simp
  from a b vector_rows vector_accuracy accurate_row_accuracy show ?thesis by simp
qed

end
